theory Spec2Isabelle
  imports Complex_Main "HOL-Library.AList"
begin

section \<open>Fixed-timestep scheduler (src/core/GameLoop.js)\<close>

text \<open>
  Timestamps and the accumulator are JavaScript numbers. The scheduler only adds,
  subtracts, compares and divides finite timestamps, so they are modelled as reals
  (rounding of IEEE doubles is not modelled). Registered callbacks are opaque to the
  scheduler: each invocation is recorded in \<open>calls\<close>, in order, and a callback is
  taken not to call back into the scheduler while it runs.
\<close>

datatype callback_event =
    UpdateCall real
  | LateUpdateCall
  | RenderCall real
  | SystemPause
  | SystemResume

record gameloop =
  isRunning :: bool
  isPaused :: bool
  lastTime :: real
  accumulator :: real
  frameCount :: nat
  fpsTime :: real
  currentFPS :: int
  calls :: "callback_event list"

definition fixedDeltaTime :: real where
  "fixedDeltaTime = 1000 / 60"

definition maxAccumulator :: real where
  "maxAccumulator = fixedDeltaTime * 5"

definition GameLoop_new :: gameloop where
  "GameLoop_new =
     \<lparr>isRunning = False, isPaused = False, lastTime = 0, accumulator = 0,
      frameCount = 0, fpsTime = 0, currentFPS = 0, calls = []\<rparr>"

text \<open>\<open>start()\<close>; \<open>now\<close> is the value of \<open>performance.now()\<close>.\<close>

definition start :: "real \<Rightarrow> gameloop \<Rightarrow> gameloop" where
  "start now g =
     (if isRunning g then g
      else g\<lparr>isRunning := True, isPaused := False, lastTime := now, accumulator := 0\<rparr>)"

definition stop :: "gameloop \<Rightarrow> gameloop" where
  "stop g = g\<lparr>isRunning := False\<rparr>"

definition pause :: "gameloop \<Rightarrow> gameloop" where
  "pause g =
     (if \<not> isPaused g then g\<lparr>isPaused := True, calls := calls g @ [SystemPause]\<rparr> else g)"

definition resume :: "real \<Rightarrow> gameloop \<Rightarrow> gameloop" where
  "resume now g =
     (if isPaused g
      then g\<lparr>isPaused := False, lastTime := now, accumulator := 0,
             calls := calls g @ [SystemResume]\<rparr>
      else g)"

text \<open>\<open>Math.round\<close> on a finite number.\<close>

definition Math_round :: "real \<Rightarrow> int" where
  "Math_round x = \<lfloor>x + 1 / 2\<rfloor>"

definition updateFPS :: "real \<Rightarrow> gameloop \<Rightarrow> gameloop" where
  "updateFPS deltaTime g =
     (let g1 = g\<lparr>frameCount := frameCount g + 1, fpsTime := fpsTime g + deltaTime\<rparr>
      in if fpsTime g1 \<ge> 1000
         then g1\<lparr>currentFPS := Math_round (real (frameCount g1) * 1000 / fpsTime g1),
                 frameCount := 0, fpsTime := 0\<rparr>
         else g1)"

text \<open>
  The loop \<open>while (accumulator >= fixedDeltaTime) { update(fixedDeltaTime);
  accumulator -= fixedDeltaTime; }\<close>.
\<close>

function fixed_updates :: "gameloop \<Rightarrow> gameloop" where
  "fixed_updates g =
     (if accumulator g \<ge> fixedDeltaTime
      then fixed_updates
             (g\<lparr>calls := calls g @ [UpdateCall fixedDeltaTime],
                accumulator := accumulator g - fixedDeltaTime\<rparr>)
      else g)"
  by pat_completeness auto
termination
proof (relation "measure (\<lambda>g. nat \<lfloor>accumulator g / fixedDeltaTime\<rfloor>)")
  show "wf (measure (\<lambda>g. nat \<lfloor>accumulator g / fixedDeltaTime\<rfloor>))"
    by simp
next
  fix g :: gameloop
  assume ge: "fixedDeltaTime \<le> accumulator g"
  have pos: "0 < fixedDeltaTime"
    by (simp add: fixedDeltaTime_def)
  have eq: "(accumulator g - fixedDeltaTime) / fixedDeltaTime
            = accumulator g / fixedDeltaTime - 1"
    using pos by (simp add: diff_divide_distrib)
  have one: "1 \<le> accumulator g / fixedDeltaTime"
    using ge pos by (simp add: le_divide_eq)
  then have "1 \<le> \<lfloor>accumulator g / fixedDeltaTime\<rfloor>"
    by (simp add: le_floor_iff)
  then show "(g\<lparr>calls := calls g @ [UpdateCall fixedDeltaTime],
               accumulator := accumulator g - fixedDeltaTime\<rparr>, g)
             \<in> measure (\<lambda>g. nat \<lfloor>accumulator g / fixedDeltaTime\<rfloor>)"
    by (simp add: eq)
qed

declare fixed_updates.simps [simp del]

text \<open>\<open>loop(currentTime)\<close>: one external tick.\<close>

definition loop :: "real \<Rightarrow> gameloop \<Rightarrow> gameloop" where
  "loop currentTime g =
     (if \<not> isRunning g then g
      else
        let deltaTime = currentTime - lastTime g;
            g1 = updateFPS deltaTime (g\<lparr>lastTime := currentTime\<rparr>);
            g2 = (if \<not> isPaused g1
                  then
                    let g3 = fixed_updates
                               (g1\<lparr>accumulator :=
                                     accumulator g1 + min deltaTime maxAccumulator\<rparr>)
                    in g3\<lparr>calls := calls g3 @ [LateUpdateCall]\<rparr>
                  else g1);
            alpha = accumulator g2 / fixedDeltaTime
        in g2\<lparr>calls := calls g2 @ [RenderCall alpha]\<rparr>)"

text \<open>Number of fixed updates recorded in a call log.\<close>

fun is_update :: "callback_event \<Rightarrow> bool" where
  "is_update (UpdateCall dt) = True"
| "is_update e = False"

definition update_count :: "callback_event list \<Rightarrow> nat" where
  "update_count cs = length (filter is_update cs)"

fun alpha_ok :: "callback_event \<Rightarrow> bool" where
  "alpha_ok (RenderCall a) = (0 \<le> a \<and> a < 1)"
| "alpha_ok e = True"


text \<open>The same, where every tick's timestamp is at least the last one seen.\<close>

inductive reachable_mono :: "gameloop \<Rightarrow> bool" where
  m_new: "reachable_mono GameLoop_new"
| m_start: "reachable_mono g \<Longrightarrow> reachable_mono (start now g)"
| m_stop: "reachable_mono g \<Longrightarrow> reachable_mono (stop g)"
| m_pause: "reachable_mono g \<Longrightarrow> reachable_mono (pause g)"
| m_resume: "reachable_mono g \<Longrightarrow> reachable_mono (resume now g)"
| m_loop: "reachable_mono g \<Longrightarrow> lastTime g \<le> t \<Longrightarrow> reachable_mono (loop t g)"

section \<open>Hierarchical state machine (src/core/StateMachine.js)\<close>

text \<open>
  A \<open>State\<close> object has a name, a \<open>Map\<close> of children keyed by name and an
  \<open>activeChild\<close> pointer that is either null or one of its children. The object graph
  built by \<open>addChild\<close> is a tree, so a state is modelled as a tree value: the children
  as an association list in insertion order and the active child by its key. The
  \<open>parent\<close> back-reference is the position in the tree; a state is identified by the
  list of names from its root. A machine holds its root states in a \<open>Map\<close> keyed by
  name and points at the current root, here by its key.

  Hooks are supplied by the caller. What the machine itself does with a hook is to call
  it; every call is recorded, in order, in \<open>effects\<close>, together with the console output.
  A hook can call back into the machine: \<open>hooks\<close> gives, for each hook invocation, the
  \<open>transition\<close> calls that the hook makes, in order. Hooks are taken not to throw and
  not to touch the machine in any other way.
\<close>

datatype state =
  State (name: string) (children: "(string \<times> state) list") (activeChild: "string option")

datatype 'p effect =
    OnEnter "string list" 'p
  | OnExit "string list"
  | LogStarted string
  | LogTransitioned string
  | ErrCannotStart string
  | ErrStateNotFound string
  | WarnNoChild string string
  | WarnChildNotFound string string

type_synonym 'p hooks = "'p effect \<Rightarrow> (string \<times> 'p) list"

record 'p machine =
  states :: "(string \<times> state) list"
  rootState :: "string option"
  currentState :: "string option"
  history :: "string list"
  transitioning :: bool
  eventQueue :: "(string \<times> 'p) list"
  effects :: "'p effect list"

definition maxHistory :: nat where
  "maxHistory = 20"

definition State_new :: "string \<Rightarrow> state" where
  "State_new n = State n [] None"

definition addChild :: "state \<Rightarrow> state \<Rightarrow> state" where
  "addChild child s = State (name s) (AList.update (name child) child (children s)) (activeChild s)"

text \<open>The object \<open>this.activeChild\<close> points at, if any.\<close>

definition active_of :: "state \<Rightarrow> state option" where
  "active_of s = (case activeChild s of None \<Rightarrow> None | Some k \<Rightarrow> map_of (children s) k)"

text \<open>
  The walk \<open>while (state.activeChild) state = state.activeChild\<close>, keeping every state
  passed: the active chain below (and including) \<open>s\<close>, outermost first.
\<close>

function active_chain :: "state \<Rightarrow> state list" where
  "active_chain s = s # (case active_of s of None \<Rightarrow> [] | Some c \<Rightarrow> active_chain c)"
  by pat_completeness auto
termination
proof (relation "measure size")
  show "wf (measure (size :: state \<Rightarrow> nat))"
    by simp
next
  fix s c :: state
  assume a: "active_of s = Some c"
  obtain n kids ac where s: "s = State n kids ac"
    by (cases s)
  from a s obtain k where "map_of kids k = Some c"
    by (auto simp: active_of_def split: option.splits)
  then have "size c < Suc (size_list (size_prod (\<lambda>x. 0) size) kids)"
    by (induction kids) (auto split: if_splits)
  then show "(c, s) \<in> measure size"
    by (simp add: s)
qed

declare active_chain.simps [simp del]

text \<open>\<open>State.exitChild()\<close> of the state at \<open>path\<close>; returns the state and what was called.\<close>

function exitChild :: "string list \<Rightarrow> state \<Rightarrow> state \<times> 'p effect list" where
  "exitChild path s =
     (case activeChild s of
        None \<Rightarrow> (s, [])
      | Some k \<Rightarrow>
          (case map_of (children s) k of
             None \<Rightarrow> (s, [])
           | Some c \<Rightarrow>
               let (c', evs) = (if active_of c \<noteq> None then exitChild (path @ [k]) c
                                else (c, []))
               in (State (name s) (AList.update k c' (children s)) None,
                   evs @ [OnExit (path @ [k])])))"
  by pat_completeness auto
termination
proof (relation "measure (\<lambda>(path, s). size s)")
  show "wf (measure (\<lambda>(path :: string list, s :: state). size s))"
    by simp
next
  fix path :: "string list" and s c :: state and k :: string
  assume a: "map_of (children s) k = Some c"
  obtain n kids ac where s: "s = State n kids ac"
    by (cases s)
  from a s have "map_of kids k = Some c"
    by simp
  then have "size c < Suc (size_list (size_prod (\<lambda>x. 0) size) kids)"
    by (induction kids) (auto split: if_splits)
  then show "((path @ [k], c), (path, s)) \<in> measure (\<lambda>(path, s). size s)"
    by (simp add: s)
qed

declare exitChild.simps [simp del]

text \<open>\<open>State.enterChild(stateName, params)\<close> of the state at \<open>path\<close>.\<close>

definition enterChild ::
  "string list \<Rightarrow> state \<Rightarrow> string \<Rightarrow> 'p \<Rightarrow> state \<times> 'p effect list" where
  "enterChild path s stateName params =
     (let (s1, evs) = (if active_of s \<noteq> None then exitChild path s else (s, []))
      in case map_of (children s1) stateName of
           Some child \<Rightarrow>
             (State (name s1) (children s1) (Some stateName),
              evs @ [OnEnter (path @ [stateName]) params])
         | None \<Rightarrow> (s1, evs @ [WarnNoChild (name s1) stateName]))"

text \<open>
  \<open>enterNestedState(parentState, pathParts, params)\<close>; \<open>path\<close> is where \<open>current\<close>
  sits. The updated child is stored back under its key, as the source mutates it in place.
\<close>

fun enterNestedState ::
  "string list \<Rightarrow> state \<Rightarrow> string list \<Rightarrow> 'p \<Rightarrow> state \<times> 'p effect list" where
  "enterNestedState path current [] params = (current, [])"
| "enterNestedState path current (part # parts) params =
     (if map_of (children current) part \<noteq> None
      then
        let (c1, evs1) = enterChild path current part params
        in (case active_of c1 of
              Some child \<Rightarrow>
                let (child', evs2) = enterNestedState (path @ [part]) child parts params
                in (State (name c1) (AList.update part child' (children c1)) (activeChild c1),
                    evs1 @ evs2)
            | None \<Rightarrow> (c1, evs1))
      else (current, [WarnChildNotFound part (name current)]))"

text \<open>\<open>String.prototype.split('.')\<close> and \<open>Array.prototype.join('.')\<close>.\<close>

fun split_dot :: "string \<Rightarrow> string list" where
  "split_dot [] = [[]]"
| "split_dot (c # cs) =
     (if c = CHR ''.'' then [] # split_dot cs
      else (case split_dot cs of
              [] \<Rightarrow> [[c]]
            | w # ws \<Rightarrow> (c # w) # ws))"

fun join_dot :: "string list \<Rightarrow> string" where
  "join_dot [] = []"
| "join_dot [p] = p"
| "join_dot (p # q # ps) = p @ ''.'' @ join_dot (q # ps)"

definition StateMachine_new :: "'p machine" where
  "StateMachine_new =
     \<lparr>states = [], rootState = None, currentState = None, history = [],
      transitioning = False, eventQueue = [], effects = []\<rparr>"

definition addState :: "state \<Rightarrow> 'p machine \<Rightarrow> 'p machine" where
  "addState s m =
     (let m1 = m\<lparr>states := AList.update (name s) s (states m)\<rparr>
      in if rootState m1 = None then m1\<lparr>rootState := Some (name s)\<rparr> else m1)"

text \<open>\<open>recordHistory(statePath)\<close>; the timestamp of an entry is not modelled.\<close>

definition recordHistory :: "string \<Rightarrow> 'p machine \<Rightarrow> 'p machine" where
  "recordHistory statePath m =
     (let h = history m @ [statePath]
      in m\<lparr>history := (if length h > maxHistory then tl h else h)\<rparr>)"

text \<open>
  What the machine does while \<open>transitioning\<close> is set: each effect is recorded, and a
  \<open>transition\<close> call made by a hook takes the first branch of \<open>transition\<close>, which
  pushes the request onto \<open>eventQueue\<close>.
\<close>

definition requests :: "'p hooks \<Rightarrow> 'p effect \<Rightarrow> (string \<times> 'p) list" where
  "requests h ev =
     (case ev of OnEnter path params \<Rightarrow> h ev | OnExit path \<Rightarrow> h ev | _ \<Rightarrow> [])"

definition enqueue :: "string \<times> 'p \<Rightarrow> 'p machine \<Rightarrow> 'p machine" where
  "enqueue req m = m\<lparr>eventQueue := eventQueue m @ [req]\<rparr>"

definition perform :: "'p hooks \<Rightarrow> 'p effect \<Rightarrow> 'p machine \<Rightarrow> 'p machine" where
  "perform h ev m = fold enqueue (requests h ev) (m\<lparr>effects := effects m @ [ev]\<rparr>)"

definition perform_all :: "'p hooks \<Rightarrow> 'p effect list \<Rightarrow> 'p machine \<Rightarrow> 'p machine" where
  "perform_all h evs m = fold (perform h) evs m"

text \<open>
  \<open>exitCurrentState()\<close>: walk down to the deepest active state, then up through the
  parent links calling \<open>onExit\<close> on each state until the parent of the current root is
  reached (so the root is included), then call \<open>onExit\<close> on the current root once more.
  No pointer is written.
\<close>

definition exit_events :: "state \<Rightarrow> 'p effect list" where
  "exit_events cur =
     (let names = map name (active_chain cur)
      in map (\<lambda>i. OnExit (take (Suc i) names)) (rev [0..<length names])
         @ [OnExit [name cur]])"

definition exitCurrentState :: "'p hooks \<Rightarrow> 'p machine \<Rightarrow> 'p machine" where
  "exitCurrentState h m =
     (case currentState m of
        None \<Rightarrow> m
      | Some cur \<Rightarrow>
          (case map_of (states m) cur of
             None \<Rightarrow> m
           | Some cur_state \<Rightarrow> perform_all h (exit_events cur_state) m))"

definition enterNested ::
  "'p hooks \<Rightarrow> string \<Rightarrow> string list \<Rightarrow> 'p \<Rightarrow> 'p machine \<Rightarrow> 'p machine" where
  "enterNested h rootName parts params m =
     (case map_of (states m) rootName of
        None \<Rightarrow> m
      | Some s \<Rightarrow>
          let (s', evs) = enterNestedState [rootName] s parts params
          in perform_all h evs (m\<lparr>states := AList.update rootName s' (states m)\<rparr>))"

text \<open>The \<open>try\<close> block of \<open>transition\<close>; \<open>transitioning\<close> is set throughout.\<close>

definition transition_try ::
  "'p hooks \<Rightarrow> string \<Rightarrow> 'p \<Rightarrow> 'p machine \<Rightarrow> 'p machine" where
  "transition_try h statePath params m =
     (let pathParts = split_dot statePath;
          targetStateName = hd pathParts
      in case currentState m of
           None \<Rightarrow> m
         | Some cur \<Rightarrow>
             if cur \<noteq> targetStateName
             then
               let m1 = exitCurrentState h m
               in (case map_of (states m1) targetStateName of
                     Some newState \<Rightarrow>
                       let m2 = perform h (OnEnter [targetStateName] params)
                                  (m1\<lparr>currentState := Some targetStateName\<rparr>);
                           m3 = (if length pathParts > 1
                                 then enterNested h targetStateName (tl pathParts) params m2
                                 else m2);
                           m4 = recordHistory statePath m3
                       in perform h (LogTransitioned statePath) m4
                   | None \<Rightarrow> perform h (ErrStateNotFound targetStateName) m1)
             else if length pathParts > 1
             then recordHistory statePath (enterNested h cur (tl pathParts) params m)
             else m)"

text \<open>One whole pass through the \<open>try\<close> block, with the flag set before and cleared after.\<close>

definition run_transition ::
  "'p hooks \<Rightarrow> string \<Rightarrow> 'p \<Rightarrow> 'p machine \<Rightarrow> 'p machine" where
  "run_transition h statePath params m =
     (transition_try h statePath params (m\<lparr>transitioning := True\<rparr>))\<lparr>transitioning := False\<rparr>"

text \<open>
  \<open>transition(statePath, params)\<close> and \<open>processEventQueue()\<close> call each other, and
  hooks that keep requesting transitions make the draining run forever. The first
  argument bounds the calls still allowed; \<open>None\<close> is the run that does not return
  within the bound.
\<close>

fun transition ::
    "nat \<Rightarrow> 'p hooks \<Rightarrow> string \<Rightarrow> 'p \<Rightarrow> 'p machine \<Rightarrow> 'p machine option"
  and processEventQueue :: "nat \<Rightarrow> 'p hooks \<Rightarrow> 'p machine \<Rightarrow> 'p machine option" where
  "transition fuel h statePath params m =
     (if transitioning m then Some (enqueue (statePath, params) m)
      else (case fuel of
              0 \<Rightarrow> None
            | Suc n \<Rightarrow> processEventQueue n h (run_transition h statePath params m)))"
| "processEventQueue fuel h m =
     (case eventQueue m of
        [] \<Rightarrow> Some m
      | item # rest \<Rightarrow>
          if transitioning m then Some m
          else (case fuel of
                  0 \<Rightarrow> None
                | Suc n \<Rightarrow>
                    (case transition n h (fst item) (snd item) (m\<lparr>eventQueue := rest\<rparr>) of
                       None \<Rightarrow> None
                     | Some m' \<Rightarrow> processEventQueue n h m')))"

declare transition.simps [simp del] processEventQueue.simps [simp del]

text \<open>
  \<open>start(stateName, params)\<close>. No transition is in flight here, so a \<open>transition\<close>
  call made by the \<open>onEnter\<close> hook runs at once, inside the hook.
\<close>

fun run_requests ::
  "nat \<Rightarrow> 'p hooks \<Rightarrow> (string \<times> 'p) list \<Rightarrow> 'p machine \<Rightarrow> 'p machine option" where
  "run_requests fuel h [] m = Some m"
| "run_requests fuel h (req # reqs) m =
     (case transition fuel h (fst req) (snd req) m of
        None \<Rightarrow> None
      | Some m' \<Rightarrow> run_requests fuel h reqs m')"

definition start_machine ::
  "nat \<Rightarrow> 'p hooks \<Rightarrow> string \<Rightarrow> 'p \<Rightarrow> 'p machine \<Rightarrow> 'p machine option" where
  "start_machine fuel h stateName params m =
     (case map_of (states m) stateName of
        Some s \<Rightarrow>
          let ev = OnEnter [stateName] params;
              m1 = m\<lparr>currentState := Some stateName, effects := effects m @ [ev]\<rparr>
          in (case run_requests fuel h (requests h ev) m1 of
                None \<Rightarrow> None
              | Some m2 \<Rightarrow>
                  let m3 = recordHistory stateName m2
                  in Some (m3\<lparr>effects := effects m3 @ [LogStarted stateName]\<rparr>))
      | None \<Rightarrow> Some (m\<lparr>effects := effects m @ [ErrCannotStart stateName]\<rparr>))"

text \<open>\<open>getCurrentStatePath()\<close>.\<close>

definition getCurrentStatePath :: "'p machine \<Rightarrow> string" where
  "getCurrentStatePath m =
     (case currentState m of
        None \<Rightarrow> []
      | Some cur \<Rightarrow>
          (case map_of (states m) cur of
             None \<Rightarrow> cur
           | Some cur_state \<Rightarrow> join_dot (map name (active_chain cur_state))))"

text \<open>
  Following the spec's words for deferred requests: a FIFO queue, replayed in order
  after the current transition completes, until the queue is empty, requests made by a
  replayed transition going to the back of the same queue. The first argument bounds
  the number of replays.
\<close>

fun replay_fifo :: "nat \<Rightarrow> 'p hooks \<Rightarrow> 'p machine \<Rightarrow> 'p machine option" where
  "replay_fifo fuel h m =
     (case eventQueue m of
        [] \<Rightarrow> Some m
      | item # rest \<Rightarrow>
          (case fuel of
             0 \<Rightarrow> None
           | Suc n \<Rightarrow>
               replay_fifo n h (run_transition h (fst item) (snd item) (m\<lparr>eventQueue := rest\<rparr>))))"

declare replay_fifo.simps [simp del]

text \<open>The hooks called in \<open>evs\<close> make no \<open>transition\<close> call.\<close>

definition silent :: "'p hooks \<Rightarrow> 'p effect list \<Rightarrow> bool" where
  "silent h evs = (concat (map (requests h) evs) = [])"

text \<open>
  A small machine used to run the model: roots \<open>attract\<close> and \<open>game\<close>, the latter
  with children \<open>ballLaunch\<close> and \<open>normalPlay\<close>, which has a child \<open>bonus\<close>.
\<close>

definition example_game :: state where
  "example_game =
     addChild (addChild (State_new ''bonus'') (State_new ''normalPlay''))
       (addChild (State_new ''ballLaunch'') (State_new ''game''))"

definition example_machine :: "unit machine" where
  "example_machine = addState example_game (addState (State_new ''attract'') StateMachine_new)"

text \<open>Hooks where entering \<open>game\<close> requests three further transitions.\<close>

definition three_requests :: "unit hooks" where
  "three_requests ev =
     (if ev = OnEnter [''game''] ()
      then [(''game.ballLaunch'', ()), (''game.normalPlay'', ()), (''attract'', ())]
      else [])"

text \<open>
  The example machine after \<open>start('attract')\<close>, and after a following
  \<open>transition('game.normalPlay.bonus')\<close>, with hooks that make no \<open>transition\<close> call.
\<close>

definition example_started :: "unit machine" where
  "example_started =
     (case start_machine 0 (\<lambda>ev. []) ''attract'' () example_machine of
        Some m \<Rightarrow> m | None \<Rightarrow> example_machine)"

definition example_playing :: "unit machine" where
  "example_playing =
     (case transition 1 (\<lambda>ev. []) ''game.normalPlay.bonus'' () example_started of
        Some m \<Rightarrow> m | None \<Rightarrow> example_machine)"

section \<open>Physics engine (PhysicsEngine.js, constants from HardwareConfig.js)\<close>

subsection \<open>JavaScript numbers\<close>

text \<open>
  The collision code divides by computed distances, so the special values of IEEE
  doubles matter here: \<open>0 / 0\<close> is \<open>NaN\<close>, a non-zero number divided by zero is an
  infinity, and \<open>NaN\<close> propagates through arithmetic and makes every comparison false.
  Finite values are modelled as exact reals (no rounding, no signed zero: a zero divisor
  counts as \<open>+0\<close>). A numeric field that an object does not have reads as
  \<open>undefined\<close>, which behaves as \<open>NaN\<close> in every operation used here.
\<close>

datatype jsnum = Fin real | PosInf | NegInf | NaN

fun is_neg :: "jsnum \<Rightarrow> bool" where
  "is_neg (Fin a) = (a < 0)"
| "is_neg NegInf = True"
| "is_neg x = False"

instantiation jsnum :: "{plus, minus, uminus, times, divide, inverse, abs, ord}"
begin

fun plus_jsnum :: "jsnum \<Rightarrow> jsnum \<Rightarrow> jsnum" where
  "plus_jsnum (Fin a) (Fin b) = Fin (a + b)"
| "plus_jsnum NaN y = NaN"
| "plus_jsnum x NaN = NaN"
| "plus_jsnum PosInf NegInf = NaN"
| "plus_jsnum NegInf PosInf = NaN"
| "plus_jsnum PosInf y = PosInf"
| "plus_jsnum NegInf y = NegInf"
| "plus_jsnum x PosInf = PosInf"
| "plus_jsnum x NegInf = NegInf"

fun uminus_jsnum :: "jsnum \<Rightarrow> jsnum" where
  "uminus_jsnum (Fin a) = Fin (- a)"
| "uminus_jsnum PosInf = NegInf"
| "uminus_jsnum NegInf = PosInf"
| "uminus_jsnum NaN = NaN"

definition minus_jsnum :: "jsnum \<Rightarrow> jsnum \<Rightarrow> jsnum" where
  "minus_jsnum x y = x + (- y)"

fun times_jsnum :: "jsnum \<Rightarrow> jsnum \<Rightarrow> jsnum" where
  "times_jsnum (Fin a) (Fin b) = Fin (a * b)"
| "times_jsnum NaN y = NaN"
| "times_jsnum x NaN = NaN"
| "times_jsnum (Fin a) y = (if a = 0 then NaN else if (a < 0) \<noteq> is_neg y then NegInf else PosInf)"
| "times_jsnum x (Fin b) = (if b = 0 then NaN else if is_neg x \<noteq> (b < 0) then NegInf else PosInf)"
| "times_jsnum x y = (if is_neg x \<noteq> is_neg y then NegInf else PosInf)"

fun divide_jsnum :: "jsnum \<Rightarrow> jsnum \<Rightarrow> jsnum" where
  "divide_jsnum (Fin a) (Fin b) =
     (if b \<noteq> 0 then Fin (a / b)
      else if a = 0 then NaN
      else if a < 0 then NegInf else PosInf)"
| "divide_jsnum NaN y = NaN"
| "divide_jsnum x NaN = NaN"
| "divide_jsnum (Fin a) y = Fin 0"
| "divide_jsnum x (Fin b) = (if is_neg x \<noteq> (b < 0) then NegInf else PosInf)"
| "divide_jsnum x y = NaN"

definition inverse_jsnum :: "jsnum \<Rightarrow> jsnum" where
  "inverse_jsnum x = divide (Fin 1) x"

fun abs_jsnum :: "jsnum \<Rightarrow> jsnum" where
  "abs_jsnum (Fin a) = Fin \<bar>a\<bar>"
| "abs_jsnum NaN = NaN"
| "abs_jsnum x = PosInf"

fun less_jsnum :: "jsnum \<Rightarrow> jsnum \<Rightarrow> bool" where
  "less_jsnum (Fin a) (Fin b) = (a < b)"
| "less_jsnum NaN y = False"
| "less_jsnum x NaN = False"
| "less_jsnum x NegInf = False"
| "less_jsnum PosInf y = False"
| "less_jsnum x y = True"

fun less_eq_jsnum :: "jsnum \<Rightarrow> jsnum \<Rightarrow> bool" where
  "less_eq_jsnum (Fin a) (Fin b) = (a \<le> b)"
| "less_eq_jsnum NaN y = False"
| "less_eq_jsnum x NaN = False"
| "less_eq_jsnum NegInf y = True"
| "less_eq_jsnum x PosInf = True"
| "less_eq_jsnum x y = False"

instance ..

end

text \<open>\<open>Math.sqrt\<close>, \<open>Math.min\<close>, \<open>Math.max\<close>, \<open>Math.cos\<close>, \<open>Math.sin\<close>.\<close>

fun Math_sqrt :: "jsnum \<Rightarrow> jsnum" where
  "Math_sqrt (Fin a) = (if a < 0 then NaN else Fin (sqrt a))"
| "Math_sqrt PosInf = PosInf"
| "Math_sqrt x = NaN"

definition Math_min :: "jsnum \<Rightarrow> jsnum \<Rightarrow> jsnum" where
  "Math_min a b = (if a = NaN \<or> b = NaN then NaN else if a < b then a else b)"

definition Math_max :: "jsnum \<Rightarrow> jsnum \<Rightarrow> jsnum" where
  "Math_max a b = (if a = NaN \<or> b = NaN then NaN else if a < b then b else a)"

fun Math_cos :: "jsnum \<Rightarrow> jsnum" where
  "Math_cos (Fin a) = Fin (cos a)"
| "Math_cos x = NaN"

fun Math_sin :: "jsnum \<Rightarrow> jsnum" where
  "Math_sin (Fin a) = Fin (sin a)"
| "Math_sin x = NaN"

text \<open>Truthiness of a number, as \<open>||\<close> tests it: \<open>0\<close> and \<open>NaN\<close> are falsy.\<close>

fun truthy :: "jsnum \<Rightarrow> bool" where
  "truthy (Fin a) = (a \<noteq> 0)"
| "truthy NaN = False"
| "truthy x = True"

subsection \<open>Constants (\<open>Physics\<close> and \<open>PlayfieldConfig\<close> of HardwareConfig.js)\<close>

definition GRAVITY :: jsnum where "GRAVITY = Fin 0.12"
definition BALL_RADIUS :: jsnum where "BALL_RADIUS = Fin 12"
definition FLIPPER_LENGTH :: jsnum where "FLIPPER_LENGTH = Fin 65"
definition FLIPPER_WIDTH :: jsnum where "FLIPPER_WIDTH = Fin 12"
definition FLIPPER_ANGULAR_VEL :: jsnum where "FLIPPER_ANGULAR_VEL = Fin 18"
definition FLIPPER_MAX_ANGLE :: jsnum where "FLIPPER_MAX_ANGLE = Fin 45"
definition FLIPPER_REST_ANGLE :: jsnum where "FLIPPER_REST_ANGLE = Fin (- 25)"
definition BALL_FRICTION :: jsnum where "BALL_FRICTION = Fin 0.998"
definition BOUNCE_DAMPING :: jsnum where "BOUNCE_DAMPING = Fin 0.65"
definition BUMPER_KICK :: jsnum where "BUMPER_KICK = Fin 10"
definition FLIPPER_KICK :: jsnum where "FLIPPER_KICK = Fin 14"
definition MAX_VELOCITY :: jsnum where "MAX_VELOCITY = Fin 28"
definition Math_PI :: jsnum where "Math_PI = Fin pi"

definition WIDTH :: jsnum where "WIDTH = Fin 800"
definition HEIGHT :: jsnum where "HEIGHT = Fin 1200"
definition SHOOTER_LANE_x :: jsnum where "SHOOTER_LANE_x = Fin 750"
definition SHOOTER_LANE_y :: jsnum where "SHOOTER_LANE_y = Fin 1100"
definition SHOOTER_LANE_width :: jsnum where "SHOOTER_LANE_width = Fin 40"
definition LEFT_FLIPPER_x :: jsnum where "LEFT_FLIPPER_x = Fin 280"
definition LEFT_FLIPPER_y :: jsnum where "LEFT_FLIPPER_y = Fin 1050"
definition RIGHT_FLIPPER_x :: jsnum where "RIGHT_FLIPPER_x = Fin 520"
definition RIGHT_FLIPPER_y :: jsnum where "RIGHT_FLIPPER_y = Fin 1050"
definition DRAIN_x :: jsnum where "DRAIN_x = Fin 300"
definition DRAIN_y :: jsnum where "DRAIN_y = Fin 1180"
definition DRAIN_width :: jsnum where "DRAIN_width = Fin 200"

subsection \<open>Ball\<close>

record ball =
  ball_id :: nat
  ball_x :: jsnum
  ball_y :: jsnum
  prevX :: jsnum
  prevY :: jsnum
  ball_vx :: jsnum
  ball_vy :: jsnum
  ball_radius :: jsnum
  active :: bool
  captured :: bool
  capturedBy :: "string option"

definition Ball_new :: "jsnum \<Rightarrow> jsnum \<Rightarrow> nat \<Rightarrow> ball" where
  "Ball_new px py i =
     \<lparr>ball_id = i, ball_x = px, ball_y = py, prevX = px, prevY = py,
      ball_vx = Fin 0, ball_vy = Fin 0, ball_radius = BALL_RADIUS,
      active = True, captured = False, capturedBy = None\<rparr>"

text \<open>\<open>Ball.update(dt)\<close>; \<open>dt\<close> is not used by the source.\<close>

definition Ball_update :: "ball \<Rightarrow> ball" where
  "Ball_update b =
     (if \<not> active b \<or> captured b then b
      else
        let b1 = b\<lparr>prevX := ball_x b, prevY := ball_y b\<rparr>;
            b2 = b1\<lparr>ball_vy := ball_vy b1 + GRAVITY\<rparr>;
            b3 = b2\<lparr>ball_vx := ball_vx b2 * BALL_FRICTION,
                     ball_vy := ball_vy b2 * BALL_FRICTION\<rparr>;
            speed = Math_sqrt (ball_vx b3 * ball_vx b3 + ball_vy b3 * ball_vy b3);
            b4 = (if speed > MAX_VELOCITY
                  then let scale = MAX_VELOCITY / speed
                       in b3\<lparr>ball_vx := ball_vx b3 * scale, ball_vy := ball_vy b3 * scale\<rparr>
                  else b3)
        in b4\<lparr>ball_x := ball_x b4 + ball_vx b4, ball_y := ball_y b4 + ball_vy b4\<rparr>)"

definition Ball_applyImpulse :: "jsnum \<Rightarrow> jsnum \<Rightarrow> ball \<Rightarrow> ball" where
  "Ball_applyImpulse ix iy b = b\<lparr>ball_vx := ball_vx b + ix, ball_vy := ball_vy b + iy\<rparr>"

definition Ball_capture :: "string \<Rightarrow> ball \<Rightarrow> ball" where
  "Ball_capture captor b =
     b\<lparr>captured := True, capturedBy := Some captor, ball_vx := Fin 0, ball_vy := Fin 0\<rparr>"

definition Ball_release :: "jsnum \<Rightarrow> jsnum \<Rightarrow> ball \<Rightarrow> ball" where
  "Ball_release rvx rvy b =
     b\<lparr>captured := False, capturedBy := None, ball_vx := rvx, ball_vy := rvy\<rparr>"

subsection \<open>Flipper\<close>

record flipper =
  fl_x :: jsnum
  fl_y :: jsnum
  isLeft :: bool
  fl_length :: jsnum
  fl_width :: jsnum
  restAngle :: jsnum
  maxAngle :: jsnum
  angle :: jsnum
  targetAngle :: jsnum
  angularVelocity :: jsnum
  isPressed :: bool

definition Flipper_new :: "jsnum \<Rightarrow> jsnum \<Rightarrow> bool \<Rightarrow> flipper" where
  "Flipper_new px py left =
     (let rest = (if left then FLIPPER_REST_ANGLE * Math_PI / Fin 180
                  else Math_PI - FLIPPER_REST_ANGLE * Math_PI / Fin 180);
          mx = (if left then (FLIPPER_REST_ANGLE + FLIPPER_MAX_ANGLE) * Math_PI / Fin 180
                else Math_PI - (FLIPPER_REST_ANGLE + FLIPPER_MAX_ANGLE) * Math_PI / Fin 180)
      in \<lparr>fl_x = px, fl_y = py, isLeft = left, fl_length = FLIPPER_LENGTH,
          fl_width = FLIPPER_WIDTH, restAngle = rest, maxAngle = mx, angle = rest,
          targetAngle = rest, angularVelocity = Fin 0, isPressed = False\<rparr>)"

definition Flipper_press :: "flipper \<Rightarrow> flipper" where
  "Flipper_press f = f\<lparr>isPressed := True, targetAngle := maxAngle f\<rparr>"

definition Flipper_release :: "flipper \<Rightarrow> flipper" where
  "Flipper_release f = f\<lparr>isPressed := False, targetAngle := restAngle f\<rparr>"

text \<open>\<open>Flipper.update(dt)\<close>; \<open>dt\<close> is not used by the source.\<close>

definition Flipper_update :: "flipper \<Rightarrow> flipper" where
  "Flipper_update f =
     (let angleDiff = targetAngle f - angle f;
          angularSpeed = FLIPPER_ANGULAR_VEL * Math_PI / Fin 180
      in if \<bar>angleDiff\<bar> < Fin 0.01
         then f\<lparr>angle := targetAngle f, angularVelocity := Fin 0\<rparr>
         else if angleDiff > Fin 0
         then
           let f1 = f\<lparr>angularVelocity := (if isLeft f then angularSpeed else - angularSpeed)\<rparr>;
               f2 = f1\<lparr>angle := angle f1 + angularVelocity f1\<rparr>
           in if (isLeft f2 \<and> angle f2 > targetAngle f2)
                 \<or> (\<not> isLeft f2 \<and> angle f2 < targetAngle f2)
              then f2\<lparr>angle := targetAngle f2\<rparr>
              else f2
         else
           let f1 = f\<lparr>angularVelocity :=
                        (if isLeft f then - angularSpeed * Fin 0.6 else angularSpeed * Fin 0.6)\<rparr>;
               f2 = f1\<lparr>angle := angle f1 + angularVelocity f1\<rparr>
           in if (isLeft f2 \<and> angle f2 < targetAngle f2)
                 \<or> (\<not> isLeft f2 \<and> angle f2 > targetAngle f2)
              then f2\<lparr>angle := targetAngle f2\<rparr>
              else f2)"

definition getTipPosition :: "flipper \<Rightarrow> jsnum \<times> jsnum" where
  "getTipPosition f =
     (fl_x f + Math_cos (angle f) * fl_length f, fl_y f + Math_sin (angle f) * fl_length f)"

definition isMovingUp :: "flipper \<Rightarrow> bool" where
  "isMovingUp f =
     (if isLeft f then angularVelocity f > Fin 0.1 else angularVelocity f < Fin (- 0.1))"

subsection \<open>Collision zones (the records of CollisionSystem.js)\<close>

datatype zone_type = Circle | Rect | Line | OtherType

record zone =
  zone_name :: string
  zone_type :: zone_type
  zone_x :: jsnum
  zone_y :: jsnum
  zone_radius :: jsnum
  zone_w :: jsnum
  zone_h :: jsnum
  zone_x1 :: jsnum
  zone_y1 :: jsnum
  zone_x2 :: jsnum
  zone_y2 :: jsnum
  switchId :: "nat option"
  kicks :: bool
  kickStrength :: jsnum
  capturesBall :: bool
  normal :: "(jsnum \<times> jsnum) option"

text \<open>The first entry of \<open>CollisionZones\<close>; \<open>SW_BUMPER_LEFT\<close> is passed in.\<close>

definition bumper_left :: "nat \<Rightarrow> zone" where
  "bumper_left sw =
     \<lparr>zone_name = ''bumper_left'', zone_type = Circle, zone_x = Fin 250, zone_y = Fin 280,
      zone_radius = Fin 28, zone_w = NaN, zone_h = NaN, zone_x1 = NaN, zone_y1 = NaN,
      zone_x2 = NaN, zone_y2 = NaN, switchId = Some sw, kicks = True,
      kickStrength = BUMPER_KICK, capturesBall = False, normal = None\<rparr>"

subsection \<open>PhysicsEngine\<close>

text \<open>
  What the engine emits on the event bus is recorded in \<open>emitted\<close>, in order; the
  listeners are taken not to call back into the engine during a tick. A ball handle is
  the ball's position in \<open>balls\<close>.
\<close>

datatype physics_event =
    BallPosition nat jsnum jsnum jsnum jsnum
  | BallDrained nat
  | CollisionEvent "nat option" zone_type string "jsnum \<times> jsnum" "jsnum \<times> jsnum"
  | FlipperHit bool

record engine =
  balls :: "ball list"
  leftFlipper :: "flipper option"
  rightFlipper :: "flipper option"
  collisionZones :: "zone list"
  plungerPower :: jsnum
  plungerCharging :: bool
  emitted :: "physics_event list"

definition bounds_left :: jsnum where "bounds_left = Fin 50"
definition bounds_right :: jsnum where "bounds_right = WIDTH - Fin 50"
definition bounds_top :: jsnum where "bounds_top = Fin 50"
definition bounds_bottom :: jsnum where "bounds_bottom = HEIGHT"

definition PhysicsEngine_new :: engine where
  "PhysicsEngine_new =
     \<lparr>balls = [], leftFlipper = None, rightFlipper = None, collisionZones = [],
      plungerPower = Fin 0, plungerCharging = False, emitted = []\<rparr>"


definition createBall :: "jsnum \<Rightarrow> jsnum \<Rightarrow> engine \<Rightarrow> engine" where
  "createBall px py e = e\<lparr>balls := balls e @ [Ball_new px py (length (balls e))]\<rparr>"

definition createBallInShooter :: "engine \<Rightarrow> engine" where
  "createBallInShooter e =
     createBall (SHOOTER_LANE_x + SHOOTER_LANE_width / Fin 2) SHOOTER_LANE_y e"

text \<open>
  \<open>removeBall(ball)\<close>: \<open>indexOf\<close> finds the object, \<open>splice\<close> removes it. The ball is
  given by the index it has in \<open>balls\<close>; an index out of range stands for a ball that
  is not in the array.
\<close>

definition removeBall :: "nat \<Rightarrow> engine \<Rightarrow> engine" where
  "removeBall i e =
     (if i < length (balls e) then e\<lparr>balls := take i (balls e) @ drop (Suc i) (balls e)\<rparr>
      else e)"

definition getActiveBalls :: "engine \<Rightarrow> ball list" where
  "getActiveBalls e = filter (\<lambda>b. active b \<and> \<not> captured b) (balls e)"

definition checkBoundaryCollision :: "ball \<Rightarrow> ball" where
  "checkBoundaryCollision b =
     (let b1 = (if ball_x b - ball_radius b < bounds_left
                then b\<lparr>ball_x := bounds_left + ball_radius b,
                       ball_vx := \<bar>ball_vx b\<bar> * BOUNCE_DAMPING\<rparr>
                else b);
          b2 = (if ball_x b1 + ball_radius b1 > bounds_right
                then (if ball_y b1 < SHOOTER_LANE_y - Fin 100
                      then b1\<lparr>ball_x := bounds_right - ball_radius b1,
                              ball_vx := - \<bar>ball_vx b1\<bar> * BOUNCE_DAMPING\<rparr>
                      else b1)
                else b1)
      in if ball_y b2 - ball_radius b2 < bounds_top
         then b2\<lparr>ball_y := bounds_top + ball_radius b2,
                 ball_vy := \<bar>ball_vy b2\<bar> * BOUNCE_DAMPING\<rparr>
         else b2)"

definition checkFlipperCollision ::
  "flipper option \<Rightarrow> ball \<Rightarrow> ball \<times> physics_event list" where
  "checkFlipperCollision fo b =
     (case fo of
        None \<Rightarrow> (b, [])
      | Some f \<Rightarrow>
          let tip = getTipPosition f;
              dx = fst tip - fl_x f;
              dy = snd tip - fl_y f;
              len = Math_sqrt (dx * dx + dy * dy);
              nx = dx / len;
              ny = dy / len;
              bx = ball_x b - fl_x f;
              by = ball_y b - fl_y f;
              proj = bx * nx + by * ny;
              clampedProj = Math_max (Fin 0) (Math_min len proj);
              closestX = fl_x f + nx * clampedProj;
              closestY = fl_y f + ny * clampedProj;
              distX = ball_x b - closestX;
              distY = ball_y b - closestY;
              dist = Math_sqrt (distX * distX + distY * distY);
              collisionDist = ball_radius b + fl_width f / Fin 2
          in if dist < collisionDist
             then
               let overlap = collisionDist - dist;
                   pushX = (distX / dist) * overlap;
                   pushY = (distY / dist) * overlap;
                   b1 = b\<lparr>ball_x := ball_x b + pushX, ball_y := ball_y b + pushY\<rparr>;
                   normalX = distX / dist;
                   normalY = distY / dist;
                   dot = ball_vx b1 * normalX + ball_vy b1 * normalY;
                   b2 = b1\<lparr>ball_vx := ball_vx b1 - Fin 2 * dot * normalX,
                            ball_vy := ball_vy b1 - Fin 2 * dot * normalY\<rparr>;
                   b3 = b2\<lparr>ball_vx := ball_vx b2 * BOUNCE_DAMPING,
                            ball_vy := ball_vy b2 * BOUNCE_DAMPING\<rparr>;
                   b4 = (if isMovingUp f
                         then
                           let kickStrength = FLIPPER_KICK;
                               kickX = - ny * kickStrength
                                         * (if isLeft f then Fin 0.3 else Fin (- 0.3));
                               kickY = - \<bar>nx\<bar> * kickStrength
                           in Ball_applyImpulse kickX kickY b3
                         else b3)
               in (b4, [FlipperHit (isLeft f)])
             else (b, []))"

definition checkCircleCollision :: "ball \<Rightarrow> zone \<Rightarrow> ball \<times> bool" where
  "checkCircleCollision b z =
     (let dx = ball_x b - zone_x z;
          dy = ball_y b - zone_y z;
          dist = Math_sqrt (dx * dx + dy * dy);
          minDist = ball_radius b + zone_radius z
      in if dist < minDist
         then
           let overlap = minDist - dist;
               nx = dx / dist;
               ny = dy / dist;
               b1 = b\<lparr>ball_x := ball_x b + nx * overlap, ball_y := ball_y b + ny * overlap\<rparr>;
               dot = ball_vx b1 * nx + ball_vy b1 * ny;
               b2 = b1\<lparr>ball_vx := ball_vx b1 - Fin 2 * dot * nx,
                        ball_vy := ball_vy b1 - Fin 2 * dot * ny\<rparr>;
               b3 = b2\<lparr>ball_vx := ball_vx b2 * BOUNCE_DAMPING,
                        ball_vy := ball_vy b2 * BOUNCE_DAMPING\<rparr>;
               b4 = (if kicks z
                     then b3\<lparr>ball_vx := ball_vx b3 + nx * kickStrength z,
                             ball_vy := ball_vy b3 + ny * kickStrength z\<rparr>
                     else b3)
           in (b4, True)
         else (b, False))"

text \<open>The fallbacks \<open>zone.normal?.x || 0\<close> and \<open>zone.normal?.y || -1\<close>.\<close>

definition fallback_nx :: "zone \<Rightarrow> jsnum" where
  "fallback_nx z =
     (case normal z of
        None \<Rightarrow> Fin 0
      | Some n \<Rightarrow> if truthy (fst n) then fst n else Fin 0)"

definition fallback_ny :: "zone \<Rightarrow> jsnum" where
  "fallback_ny z =
     (case normal z of
        None \<Rightarrow> Fin (- 1)
      | Some n \<Rightarrow> if truthy (snd n) then snd n else Fin (- 1))"

definition checkRectCollision :: "ball \<Rightarrow> zone \<Rightarrow> ball \<times> bool" where
  "checkRectCollision b z =
     (let closestX = Math_max (zone_x z) (Math_min (ball_x b) (zone_x z + zone_w z));
          closestY = Math_max (zone_y z) (Math_min (ball_y b) (zone_y z + zone_h z));
          dx = ball_x b - closestX;
          dy = ball_y b - closestY;
          dist = Math_sqrt (dx * dx + dy * dy)
      in if dist < ball_radius b
         then
           let overlap = ball_radius b - dist;
               nx = (if dist > Fin 0 then dx / dist else fallback_nx z);
               ny = (if dist > Fin 0 then dy / dist else fallback_ny z);
               b1 = b\<lparr>ball_x := ball_x b + nx * overlap, ball_y := ball_y b + ny * overlap\<rparr>;
               dot = ball_vx b1 * nx + ball_vy b1 * ny;
               b2 = b1\<lparr>ball_vx := ball_vx b1 - Fin 2 * dot * nx,
                        ball_vy := ball_vy b1 - Fin 2 * dot * ny\<rparr>;
               b3 = b2\<lparr>ball_vx := ball_vx b2 * BOUNCE_DAMPING,
                        ball_vy := ball_vy b2 * BOUNCE_DAMPING\<rparr>
           in (b3, True)
         else (b, False))"

definition checkLineCollision :: "ball \<Rightarrow> zone \<Rightarrow> ball \<times> bool" where
  "checkLineCollision b z =
     (let dx = zone_x2 z - zone_x1 z;
          dy = zone_y2 z - zone_y1 z;
          len = Math_sqrt (dx * dx + dy * dy);
          nx = dx / len;
          ny = dy / len;
          bx = ball_x b - zone_x1 z;
          by = ball_y b - zone_y1 z;
          proj = bx * nx + by * ny;
          clampedProj = Math_max (Fin 0) (Math_min len proj);
          closestX = zone_x1 z + nx * clampedProj;
          closestY = zone_y1 z + ny * clampedProj;
          distX = ball_x b - closestX;
          distY = ball_y b - closestY;
          dist = Math_sqrt (distX * distX + distY * distY)
      in if dist < ball_radius b
         then
           let overlap = ball_radius b - dist;
               pnx = distX / dist;
               pny = distY / dist;
               b1 = b\<lparr>ball_x := ball_x b + pnx * overlap, ball_y := ball_y b + pny * overlap\<rparr>;
               dot = ball_vx b1 * pnx + ball_vy b1 * pny;
               b2 = b1\<lparr>ball_vx := ball_vx b1 - Fin 2 * dot * pnx,
                        ball_vy := ball_vy b1 - Fin 2 * dot * pny\<rparr>;
               b3 = b2\<lparr>ball_vx := ball_vx b2 * BOUNCE_DAMPING,
                        ball_vy := ball_vy b2 * BOUNCE_DAMPING\<rparr>
           in (b3, True)
         else (b, False))"

definition checkZoneCollision :: "ball \<Rightarrow> zone \<Rightarrow> ball \<times> bool" where
  "checkZoneCollision b z =
     (case zone_type z of
        Circle \<Rightarrow> checkCircleCollision b z
      | Rect \<Rightarrow> checkRectCollision b z
      | Line \<Rightarrow> checkLineCollision b z
      | OtherType \<Rightarrow> (b, False))"

definition handleZoneHit :: "ball \<Rightarrow> zone \<Rightarrow> ball \<times> physics_event list" where
  "handleZoneHit b z =
     (let ev = CollisionEvent (switchId z) (zone_type z) (zone_name z)
                 (ball_x b, ball_y b) (ball_vx b, ball_vy b)
      in if capturesBall z
         then ((Ball_capture (zone_name z) b)\<lparr>ball_x := zone_x z, ball_y := zone_y z\<rparr>, [ev])
         else (b, [ev]))"

fun checkZoneCollisions :: "zone list \<Rightarrow> ball \<Rightarrow> ball \<times> physics_event list" where
  "checkZoneCollisions [] b = (b, [])"
| "checkZoneCollisions (z # zs) b =
     (let (b1, hit) = checkZoneCollision b z;
          (b2, evs1) = (if hit then handleZoneHit b1 z else (b1, []));
          (b3, evs2) = checkZoneCollisions zs b2
      in (b3, evs1 @ evs2))"

definition checkDrain :: "ball \<Rightarrow> ball \<times> physics_event list" where
  "checkDrain b =
     (if ball_x b > DRAIN_x \<and> ball_x b < DRAIN_x + DRAIN_width \<and> ball_y b > DRAIN_y
      then (b\<lparr>active := False\<rparr>, [BallDrained (ball_id b)])
      else (b, []))"

text \<open>The body of \<open>for (const ball of this.balls)\<close> in \<open>update\<close>, for one ball.\<close>

definition update_ball ::
  "flipper option \<Rightarrow> flipper option \<Rightarrow> zone list \<Rightarrow> ball \<Rightarrow> ball \<times> physics_event list" where
  "update_ball lf rf zones b =
     (if \<not> active b \<or> captured b then (b, [])
      else
        let b1 = Ball_update b;
            b2 = checkBoundaryCollision b1;
            (b3, evs1) = checkFlipperCollision lf b2;
            (b4, evs2) = checkFlipperCollision rf b3;
            (b5, evs3) = checkZoneCollisions zones b4;
            (b6, evs4) = checkDrain b5
        in (b6, evs1 @ evs2 @ evs3 @ evs4
                 @ [BallPosition (ball_id b6) (ball_x b6) (ball_y b6) (ball_vx b6) (ball_vy b6)]))"

fun update_balls ::
  "flipper option \<Rightarrow> flipper option \<Rightarrow> zone list \<Rightarrow> ball list
   \<Rightarrow> ball list \<times> physics_event list" where
  "update_balls lf rf zones [] = ([], [])"
| "update_balls lf rf zones (b # bs) =
     (let (b', evs1) = update_ball lf rf zones b;
          (bs', evs2) = update_balls lf rf zones bs
      in (b' # bs', evs1 @ evs2))"

text \<open>\<open>PhysicsEngine.update(dt)\<close>: one physics tick.\<close>

definition update :: "engine \<Rightarrow> engine" where
  "update e =
     (let lf = map_option Flipper_update (leftFlipper e);
          rf = map_option Flipper_update (rightFlipper e);
          pp = (if plungerCharging e then Math_min (Fin 1) (plungerPower e + Fin 0.02)
                else plungerPower e);
          (bs, evs) = update_balls lf rf (collisionZones e) (balls e)
      in e\<lparr>leftFlipper := lf, rightFlipper := rf, plungerPower := pp, balls := bs,
           emitted := emitted e @ evs\<rparr>)"

text \<open>
  \<open>Ball.release(vx, vy)\<close> called on the ball with handle \<open>i\<close>: what the interface
  command \<open>releaseCaptured(handle, vx, vy)\<close> does. An index out of range stands for a
  ball that is not in the array.
\<close>

definition releaseCaptured :: "nat \<Rightarrow> jsnum \<Rightarrow> jsnum \<Rightarrow> engine \<Rightarrow> engine" where
  "releaseCaptured i rvx rvy e =
     (if i < length (balls e) then e\<lparr>balls := (balls e)[i := Ball_release rvx rvy (balls e ! i)]\<rparr>
      else e)"

text \<open>
  \<open>ejectCapturedBall(captor, power)\<close>: the first ball captured by \<open>captor\<close>, if there
  is one, is released upwards; \<open>strong\<close> is the source's \<open>power\<close> flag.
\<close>

fun find_captured :: "string \<Rightarrow> ball list \<Rightarrow> nat option" where
  "find_captured captor [] = None"
| "find_captured captor (b # bs) =
     (if captured b \<and> capturedBy b = Some captor then Some 0
      else map_option Suc (find_captured captor bs))"

definition ejectCapturedBall :: "string \<Rightarrow> bool \<Rightarrow> engine \<Rightarrow> engine" where
  "ejectCapturedBall captor strong e =
     (case find_captured captor (balls e) of
        None \<Rightarrow> e
      | Some i \<Rightarrow>
          let ejectSpeed = (if strong then Fin 15 else Fin 10)
          in releaseCaptured i (Fin 0) (- ejectSpeed) e)"

text \<open>\<open>reset()\<close>.\<close>

definition reset :: "engine \<Rightarrow> engine" where
  "reset e =
     e\<lparr>balls := [], plungerPower := Fin 0, plungerCharging := False,
       leftFlipper := map_option Flipper_release (leftFlipper e),
       rightFlipper := map_option Flipper_release (rightFlipper e)\<rparr>"

subsection \<open>Inputs used to run the model\<close>

text \<open>
  The right flipper as \<open>initialize\<close> creates it, the same flipper after \<open>press()\<close>
  and one \<open>update\<close>, and after a following \<open>release()\<close> and one more \<open>update\<close>.
\<close>

definition right_flipper :: flipper where
  "right_flipper = Flipper_new RIGHT_FLIPPER_x RIGHT_FLIPPER_y False"


definition right_pressed :: flipper where
  "right_pressed = Flipper_update (Flipper_press right_flipper)"

definition right_released :: flipper where
  "right_released = Flipper_update (Flipper_release right_pressed)"




section \<open>Verified properties\<close>

subsection \<open>Scheduler\<close>

lemma fdt_pos: "0 < fixedDeltaTime" by (simp add: fixedDeltaTime_def)

lemma fixed_updates_spec:
  "\<exists>k. calls (fixed_updates g) = calls g @ replicate k (UpdateCall fixedDeltaTime)
     \<and> accumulator (fixed_updates g) + fixedDeltaTime * real k = accumulator g
     \<and> accumulator (fixed_updates g) < fixedDeltaTime
     \<and> (0 \<le> accumulator g \<longrightarrow> 0 \<le> accumulator (fixed_updates g))
     \<and> (0 < k \<longrightarrow> 0 \<le> accumulator (fixed_updates g))
     \<and> isRunning (fixed_updates g) = isRunning g
     \<and> isPaused (fixed_updates g) = isPaused g
     \<and> lastTime (fixed_updates g) = lastTime g"
proof (induction g rule: fixed_updates.induct)
  case (1 g)
  show ?case
  proof (cases "fixedDeltaTime \<le> accumulator g")
    case True
    let ?g1 = "g\<lparr>calls := calls g @ [UpdateCall fixedDeltaTime],
                accumulator := accumulator g - fixedDeltaTime\<rparr>"
    have eq: "fixed_updates g = fixed_updates ?g1"
      using True by (subst fixed_updates.simps) simp
    from "1.IH"[OF True] obtain k where
      k: "calls (fixed_updates ?g1) = calls ?g1 @ replicate k (UpdateCall fixedDeltaTime)"
         "accumulator (fixed_updates ?g1) + fixedDeltaTime * real k = accumulator ?g1"
         "accumulator (fixed_updates ?g1) < fixedDeltaTime"
         "0 \<le> accumulator ?g1 \<longrightarrow> 0 \<le> accumulator (fixed_updates ?g1)"
         "isRunning (fixed_updates ?g1) = isRunning ?g1"
         "isPaused (fixed_updates ?g1) = isPaused ?g1"
         "lastTime (fixed_updates ?g1) = lastTime ?g1"
      by blast
    have nn: "0 \<le> accumulator (fixed_updates ?g1)"
      using k(4) True by simp
    show ?thesis
      apply (rule exI[of _ "Suc k"])
      using k nn True by (simp add: eq replicate_app_Cons_same algebra_simps)
  next
    case False
    then have eq: "fixed_updates g = g"
      by (subst fixed_updates.simps) simp
    show ?thesis
      apply (rule exI[of _ 0])
      using False by (simp add: eq)
  qed
qed

lemma updateFPS_frame [simp]:
  "isRunning (updateFPS d g) = isRunning g"
  "isPaused (updateFPS d g) = isPaused g"
  "lastTime (updateFPS d g) = lastTime g"
  "accumulator (updateFPS d g) = accumulator g"
  "calls (updateFPS d g) = calls g"
  by (simp_all add: updateFPS_def Let_def)

lemma update_count_append [simp]:
  "update_count (xs @ ys) = update_count xs + update_count ys"
  by (simp add: update_count_def)

lemma update_count_replicate [simp]:
  "update_count (replicate k (UpdateCall d)) = k"
  by (simp add: update_count_def)

lemma loop_stopped: "\<not> isRunning g \<Longrightarrow> loop t g = g"
  by (simp add: loop_def)

lemma loop_paused:
  assumes "isRunning g" "isPaused g"
  shows "accumulator (loop t g) = accumulator g"
    and "calls (loop t g) = calls g @ [RenderCall (accumulator g / fixedDeltaTime)]"
    and "lastTime (loop t g) = t"
  using assms by (simp_all add: loop_def Let_def)

lemma loop_active:
  assumes "isRunning g" "\<not> isPaused g"
  shows "\<exists>k. calls (loop t g)
             = calls g @ replicate k (UpdateCall fixedDeltaTime)
                 @ [LateUpdateCall, RenderCall (accumulator (loop t g) / fixedDeltaTime)]
          \<and> accumulator (loop t g) + fixedDeltaTime * real k
             = accumulator g + min (t - lastTime g) maxAccumulator
          \<and> accumulator (loop t g) < fixedDeltaTime
          \<and> (0 \<le> accumulator g + min (t - lastTime g) maxAccumulator
               \<longrightarrow> 0 \<le> accumulator (loop t g))
          \<and> (0 < k \<longrightarrow> 0 \<le> accumulator (loop t g))"
proof -
  let ?g1 = "updateFPS (t - lastTime g) (g\<lparr>lastTime := t\<rparr>)"
  let ?g2 = "?g1\<lparr>accumulator := accumulator ?g1 + min (t - lastTime g) maxAccumulator\<rparr>"
  obtain k where
    k: "calls (fixed_updates ?g2) = calls ?g2 @ replicate k (UpdateCall fixedDeltaTime)"
       "accumulator (fixed_updates ?g2) + fixedDeltaTime * real k = accumulator ?g2"
       "accumulator (fixed_updates ?g2) < fixedDeltaTime"
       "0 \<le> accumulator ?g2 \<longrightarrow> 0 \<le> accumulator (fixed_updates ?g2)"
       "0 < k \<longrightarrow> 0 \<le> accumulator (fixed_updates ?g2)"
    using fixed_updates_spec[of ?g2] by blast
  have acc: "accumulator (loop t g) = accumulator (fixed_updates ?g2)"
    using assms by (simp add: loop_def Let_def)
  have cs: "calls (loop t g)
            = calls (fixed_updates ?g2)
                @ [LateUpdateCall, RenderCall (accumulator (fixed_updates ?g2) / fixedDeltaTime)]"
    using assms by (simp add: loop_def Let_def)
  show ?thesis
    apply (rule exI[of _ k])
    using k by (simp add: acc cs)
qed

lemma fixed_updates_frame [simp]:
  "isRunning (fixed_updates g) = isRunning g"
  "isPaused (fixed_updates g) = isPaused g"
  "lastTime (fixed_updates g) = lastTime g"
  using fixed_updates_spec [of g] by auto

lemma loop_lastTime: "isRunning g \<Longrightarrow> lastTime (loop t g) = t"
  by (simp add: loop_def Let_def)




text \<open>
  Claim C7. For every sequence of operations in which each tick's timestamp is at least
  the last timestamp seen (ticks while paused included), the accumulator after the tick
  lies in \<open>[0, fixedDeltaTime)\<close> and every interpolation alpha handed to render lies
  in \<open>[0, 1)\<close>.
\<close>

theorem accumulator_and_alpha_in_range:
  assumes "reachable_mono g"
  shows "0 \<le> accumulator g \<and> accumulator g < fixedDeltaTime \<and> list_all alpha_ok (calls g)"
  using assms
proof (induction rule: reachable_mono.induct)
  case m_new
  show ?case by (simp add: GameLoop_new_def fdt_pos)
next
  case (m_start g now)
  then show ?case by (simp add: start_def fdt_pos)
next
  case (m_stop g)
  then show ?case by (simp add: stop_def)
next
  case (m_pause g)
  then show ?case by (simp add: pause_def)
next
  case (m_resume g now)
  then show ?case by (simp add: resume_def fdt_pos)
next
  case (m_loop g t)
  show ?case
  proof (cases "isRunning g")
    case False
    with m_loop show ?thesis by (simp add: loop_stopped)
  next
    case True
    show ?thesis
    proof (cases "isPaused g")
      case True
      with \<open>isRunning g\<close> m_loop fdt_pos show ?thesis
        by (simp add: loop_paused)
    next
      case False
      then obtain k where
        k: "calls (loop t g)
              = calls g @ replicate k (UpdateCall fixedDeltaTime)
                  @ [LateUpdateCall, RenderCall (accumulator (loop t g) / fixedDeltaTime)]"
           "accumulator (loop t g) < fixedDeltaTime"
           "0 \<le> accumulator g + min (t - lastTime g) maxAccumulator
              \<longrightarrow> 0 \<le> accumulator (loop t g)"
        using loop_active[of g t] \<open>isRunning g\<close> by blast
      have "0 \<le> maxAccumulator"
        using fdt_pos by (simp add: maxAccumulator_def)
      with m_loop have "0 \<le> accumulator g + min (t - lastTime g) maxAccumulator"
        by simp
      with k(3) have nn: "0 \<le> accumulator (loop t g)" by simp
      have "list_all alpha_ok (replicate k (UpdateCall fixedDeltaTime))"
        by (induction k) simp_all
      with m_loop nn k(2) fdt_pos show ?thesis
        by (simp add: k(1))
    qed
  qed
qed

theorem accumulator_and_alpha_in_range_witness:
  "0 \<le> accumulator (loop 10000 (pause (loop 20 (start 0 GameLoop_new))))
   \<and> accumulator (loop 10000 (pause (loop 20 (start 0 GameLoop_new)))) < fixedDeltaTime
   \<and> list_all alpha_ok (calls (loop 10000 (pause (loop 20 (start 0 GameLoop_new)))))"
proof -
  have a: "reachable_mono (start 0 GameLoop_new)"
    by (rule m_start [OF m_new])
  have b: "reachable_mono (pause (loop 20 (start 0 GameLoop_new)))"
    by (rule m_pause [OF m_loop [OF a]]) (simp add: start_def GameLoop_new_def)
  have c: "lastTime (pause (loop 20 (start 0 GameLoop_new))) \<le> 10000"
    by (simp add: pause_def loop_lastTime start_def GameLoop_new_def)
  show ?thesis
    by (rule accumulator_and_alpha_in_range [OF m_loop [OF b c]])
qed

subsection \<open>State machine\<close>

lemma run_transition_flag [simp]: "\<not> transitioning (run_transition h sp ps m)"
  by (simp add: run_transition_def)

lemma processEventQueue_empty:
  "eventQueue m = [] \<Longrightarrow> processEventQueue k h m = Some m"
  by (simp add: processEventQueue.simps)

lemma processEventQueue_step:
  "\<not> transitioning m \<Longrightarrow> eventQueue m = item # rest \<Longrightarrow>
   processEventQueue (Suc n) h m =
     (case transition n h (fst item) (snd item) (m\<lparr>eventQueue := rest\<rparr>) of
        None \<Rightarrow> None
      | Some m' \<Rightarrow> processEventQueue n h m')"
  by (simp add: processEventQueue.simps)

lemma transition_idle:
  "\<not> transitioning m \<Longrightarrow>
   transition (Suc n) h sp ps m = processEventQueue n h (run_transition h sp ps m)"
  by (simp add: transition.simps)

lemma transition_idle_0: "\<not> transitioning m \<Longrightarrow> transition 0 h sp ps m = None"
  by (simp add: transition.simps)

lemma transition_busy:
  "transitioning m \<Longrightarrow> transition k h sp ps m = Some (enqueue (sp, ps) m)"
  by (simp add: transition.simps)

lemma replay_fifo_empty: "eventQueue m = [] \<Longrightarrow> replay_fifo k h m = Some m"
  by (simp add: replay_fifo.simps)

lemma replay_fifo_step:
  "eventQueue m = item # rest \<Longrightarrow>
   replay_fifo (Suc n) h m
     = replay_fifo n h (run_transition h (fst item) (snd item) (m\<lparr>eventQueue := rest\<rparr>))"
  by (simp add: replay_fifo.simps)

lemma replay_fifo_0: "eventQueue m = item # rest \<Longrightarrow> replay_fifo 0 h m = None"
  by (simp add: replay_fifo.simps)

lemma replay_fifo_result:
  "replay_fifo n h m = Some m' \<Longrightarrow> \<not> transitioning m \<Longrightarrow>
   eventQueue m' = [] \<and> \<not> transitioning m'"
proof (induction n arbitrary: m)
  case 0
  then show ?case
    by (cases "eventQueue m") (simp_all add: replay_fifo_empty replay_fifo_0)
next
  case (Suc n)
  show ?case
  proof (cases "eventQueue m")
    case Nil
    with Suc.prems show ?thesis by (simp add: replay_fifo_empty)
  next
    case (Cons item rest)
    with Suc.prems have
      "replay_fifo n h (run_transition h (fst item) (snd item) (m\<lparr>eventQueue := rest\<rparr>)) = Some m'"
      by (simp add: replay_fifo_step)
    then show ?thesis
      by (rule Suc.IH) simp
  qed
qed

lemma replay_fifo_mono:
  "replay_fifo n h m = Some m' \<Longrightarrow> n \<le> k \<Longrightarrow> replay_fifo k h m = Some m'"
proof (induction n arbitrary: m k)
  case 0
  then show ?case
    by (cases "eventQueue m") (simp_all add: replay_fifo_empty replay_fifo_0)
next
  case (Suc n)
  show ?case
  proof (cases "eventQueue m")
    case Nil
    with Suc.prems show ?thesis by (simp add: replay_fifo_empty)
  next
    case (Cons item rest)
    from Suc.prems obtain k' where k: "k = Suc k'" "n \<le> k'"
      by (cases k) auto
    from Cons Suc.prems have
      "replay_fifo n h (run_transition h (fst item) (snd item) (m\<lparr>eventQueue := rest\<rparr>)) = Some m'"
      by (simp add: replay_fifo_step)
    then have
      "replay_fifo k' h (run_transition h (fst item) (snd item) (m\<lparr>eventQueue := rest\<rparr>)) = Some m'"
      using k(2) by (rule Suc.IH)
    with Cons k(1) show ?thesis by (simp add: replay_fifo_step)
  qed
qed

lemma replay_to_source:
  "replay_fifo n h m = Some m' \<Longrightarrow> \<not> transitioning m \<Longrightarrow>
   processEventQueue (2 * n) h m = Some m'"
proof (induction n arbitrary: m)
  case 0
  then show ?case
    by (cases "eventQueue m") (simp_all add: replay_fifo_empty replay_fifo_0 processEventQueue_empty)
next
  case (Suc n)
  show ?case
  proof (cases "eventQueue m")
    case Nil
    with Suc.prems show ?thesis
      by (simp add: replay_fifo_empty processEventQueue_empty)
  next
    case (Cons item rest)
    let ?m1 = "m\<lparr>eventQueue := rest\<rparr>"
    let ?m2 = "run_transition h (fst item) (snd item) ?m1"
    from Cons Suc.prems have r: "replay_fifo n h ?m2 = Some m'"
      by (simp add: replay_fifo_step)
    then have p: "processEventQueue (2 * n) h ?m2 = Some m'"
      by (rule Suc.IH) simp
    from r have e: "eventQueue m' = []"
      using replay_fifo_result by fastforce
    have idle: "\<not> transitioning ?m1"
      using Suc.prems by simp
    have t: "transition (Suc (2 * n)) h (fst item) (snd item) ?m1 = Some m'"
      using p by (simp add: transition_idle [OF idle])
    have "processEventQueue (Suc (Suc (2 * n))) h m
            = (case transition (Suc (2 * n)) h (fst item) (snd item) ?m1 of
                 None \<Rightarrow> None
               | Some m' \<Rightarrow> processEventQueue (Suc (2 * n)) h m')"
      using Suc.prems(2) Cons by (rule processEventQueue_step)
    then show ?thesis
      using t e by (simp add: processEventQueue_empty)
  qed
qed

lemma source_to_replay:
  "processEventQueue k h m = Some m' \<Longrightarrow> \<not> transitioning m \<Longrightarrow>
   replay_fifo k h m = Some m'"
proof (induction k arbitrary: m m' rule: less_induct)
  case (less k)
  show ?case
  proof (cases "eventQueue m")
    case Nil
    with less.prems show ?thesis
      by (simp add: replay_fifo_empty processEventQueue_empty)
  next
    case (Cons item rest)
    let ?m1 = "m\<lparr>eventQueue := rest\<rparr>"
    let ?m2 = "run_transition h (fst item) (snd item) ?m1"
    have idle: "\<not> transitioning ?m1"
      using less.prems by simp
    obtain n where k: "k = Suc n"
      using less.prems Cons by (cases k) (simp_all add: processEventQueue.simps)
    from less.prems(1) obtain m1' where
      t: "transition n h (fst item) (snd item) ?m1 = Some m1'"
      and p: "processEventQueue n h m1' = Some m'"
      unfolding k processEventQueue_step [OF less.prems(2) Cons]
      by (auto split: option.splits)
    obtain n' where n: "n = Suc n'"
      using t idle by (cases n) (simp_all add: transition_idle_0)
    from t have "processEventQueue n' h ?m2 = Some m1'"
      by (simp add: n transition_idle [OF idle])
    then have r: "replay_fifo n' h ?m2 = Some m1'"
      by (rule less.IH [rotated]) (simp_all add: k n)
    then have e: "eventQueue m1' = []"
      using replay_fifo_result by fastforce
    with p have "m' = m1'"
      by (simp add: processEventQueue_empty)
    with r have "replay_fifo n h ?m2 = Some m'"
      using replay_fifo_mono [of n' h ?m2 m1' n] by (simp add: n)
    with Cons show ?thesis
      by (simp add: k replay_fifo_step)
  qed
qed

text \<open>
  Claim C8. A \<open>transition\<close> requested while another is in flight only appends the
  request to the back of \<open>eventQueue\<close>. A transition started while none is in flight
  returns exactly what replaying the queue in FIFO order after it gives, requests made
  by replayed transitions included: whenever that replay ends with an empty queue
  within \<open>n\<close> replays, the source returns the same machine, and whatever the source
  returns is the result of that replay.
\<close>

theorem deferred_transitions_replayed_fifo:
  "(transitioning m \<longrightarrow>
      transition fuel h sp ps m = Some (m\<lparr>eventQueue := eventQueue m @ [(sp, ps)]\<rparr>))
   \<and> (\<not> transitioning m \<longrightarrow> replay_fifo n h (run_transition h sp ps m) = Some m' \<longrightarrow>
        transition (Suc (2 * n)) h sp ps m = Some m' \<and> eventQueue m' = [])
   \<and> (\<not> transitioning m \<longrightarrow> transition fuel h sp ps m = Some m' \<longrightarrow>
        replay_fifo fuel h (run_transition h sp ps m) = Some m')"
proof (intro conjI impI)
  assume "transitioning m"
  then show "transition fuel h sp ps m = Some (m\<lparr>eventQueue := eventQueue m @ [(sp, ps)]\<rparr>)"
    by (simp add: transition_busy enqueue_def)
next
  assume idle: "\<not> transitioning m"
    and r: "replay_fifo n h (run_transition h sp ps m) = Some m'"
  from r have "processEventQueue (2 * n) h (run_transition h sp ps m) = Some m'"
    by (rule replay_to_source) simp
  then show "transition (Suc (2 * n)) h sp ps m = Some m'"
    by (simp add: transition_idle [OF idle])
next
  assume "\<not> transitioning m"
    and r: "replay_fifo n h (run_transition h sp ps m) = Some m'"
  from r show "eventQueue m' = []"
    using replay_fifo_result by fastforce
next
  assume idle: "\<not> transitioning m" and t: "transition fuel h sp ps m = Some m'"
  obtain k where f: "fuel = Suc k"
    using t idle by (cases fuel) (simp_all add: transition_idle_0)
  from t have "processEventQueue k h (run_transition h sp ps m) = Some m'"
    by (simp add: f transition_idle [OF idle])
  then have "replay_fifo k h (run_transition h sp ps m) = Some m'"
    by (rule source_to_replay) simp
  then show "replay_fifo fuel h (run_transition h sp ps m) = Some m'"
    using replay_fifo_mono [of k h _ m' fuel] by (simp add: f)
qed

lemma fold_enqueue: "fold enqueue reqs m = m\<lparr>eventQueue := eventQueue m @ reqs\<rparr>"
  by (induction reqs arbitrary: m) (simp_all add: enqueue_def)

lemma perform_eq:
  "perform h ev m = m\<lparr>effects := effects m @ [ev], eventQueue := eventQueue m @ requests h ev\<rparr>"
  by (simp add: perform_def fold_enqueue)

lemma perform_all_eq:
  "perform_all h evs m
     = m\<lparr>effects := effects m @ evs,
          eventQueue := eventQueue m @ concat (map (requests h) evs)\<rparr>"
  unfolding perform_all_def
  by (induction evs arbitrary: m) (simp_all add: perform_eq)

lemma perform_all_silent:
  "silent h evs \<Longrightarrow> perform_all h evs m = m\<lparr>effects := effects m @ evs\<rparr>"
  by (simp add: perform_all_eq silent_def)

lemma silent_append [simp]: "silent h (xs @ ys) = (silent h xs \<and> silent h ys)"
  by (simp add: silent_def)

lemma silent_log [simp]:
  "silent h [LogTransitioned s]" "silent h [ErrStateNotFound s]"
  by (simp_all add: silent_def requests_def)

lemma exitCurrentState_eq:
  "currentState m = Some cur \<Longrightarrow> map_of (states m) cur = Some sc \<Longrightarrow>
   exitCurrentState h m
     = m\<lparr>effects := effects m @ exit_events sc,
          eventQueue := eventQueue m @ concat (map (requests h) (exit_events sc))\<rparr>"
  by (simp add: exitCurrentState_def perform_all_eq)

lemma exitCurrentState_keeps_pointers:
  "states (exitCurrentState h m) = states m \<and> currentState (exitCurrentState h m) = currentState m"
  by (simp add: exitCurrentState_def perform_all_eq split: option.splits)


lemma run_transition_bare_root:
  assumes "currentState m = Some cur" "map_of (states m) cur = Some sc"
    "split_dot b = [b]" "cur \<noteq> b" "map_of (states m) b = Some sb"
  shows "run_transition h b ps m
         = m\<lparr>currentState := Some b,
              effects := effects m @ exit_events sc @ [OnEnter [b] ps, LogTransitioned b],
              eventQueue := eventQueue m
                 @ concat (map (requests h) (exit_events sc @ [OnEnter [b] ps])),
              history := history (recordHistory b m),
              transitioning := False\<rparr>"
  using assms
  by (simp add: run_transition_def transition_try_def Let_def exitCurrentState_eq
      perform_eq requests_def recordHistory_def)

lemma example_started_eq:
  "example_started =
     \<lparr>states =
        [(''attract'', State ''attract'' [] None),
         (''game'',
          State ''game''
            [(''ballLaunch'', State ''ballLaunch'' [] None),
             (''normalPlay'', State ''normalPlay'' [(''bonus'', State ''bonus'' [] None)] None)]
            None)],
      rootState = Some ''attract'', currentState = Some ''attract'',
      history = [''attract''], transitioning = False, eventQueue = [],
      effects = [OnEnter [''attract''] (), LogStarted ''attract'']\<rparr>"
  by code_simp

lemma example_playing_eq:
  "example_playing =
     \<lparr>states =
        [(''attract'', State ''attract'' [] None),
         (''game'',
          State ''game''
            [(''ballLaunch'', State ''ballLaunch'' [] None),
             (''normalPlay'',
              State ''normalPlay'' [(''bonus'', State ''bonus'' [] None)] (Some ''bonus''))]
            (Some ''normalPlay''))],
      rootState = Some ''attract'', currentState = Some ''game'',
      history = [''attract'', ''game.normalPlay.bonus''], transitioning = False,
      eventQueue = [],
      effects =
        [OnEnter [''attract''] (), LogStarted ''attract'', OnExit [''attract''],
         OnExit [''attract''], OnEnter [''game''] (), OnEnter [''game'', ''normalPlay''] (),
         OnEnter [''game'', ''normalPlay'', ''bonus''] (),
         LogTransitioned ''game.normalPlay.bonus'']\<rparr>"
  by code_simp


lemma quiet_requests: "\<forall>ev. h ev = [] \<Longrightarrow> concat (map (requests h) evs) = []"
  by (induction evs) (simp_all add: requests_def split: effect.splits)

lemma enterNested_other_root:
  assumes "a \<noteq> b"
  shows "map_of (states (enterNested h b parts ps m)) a = map_of (states m) a"
    and "currentState (enterNested h b parts ps m) = currentState m"
    and "history (enterNested h b parts ps m) = history m"
    and "transitioning (enterNested h b parts ps m) = transitioning m"
  using assms
  by (auto simp: enterNested_def perform_all_eq update_conv' split_def Let_def split: option.splits)

lemma enterNested_same_root:
  "map_of (states m) b = Some s \<Longrightarrow> \<exists>s'. map_of (states (enterNested h b parts ps m)) b = Some s'"
  by (auto simp: enterNested_def perform_all_eq update_conv' split_def Let_def split: option.splits)

lemma enterNested_quiet:
  "\<forall>ev. h ev = [] \<Longrightarrow> eventQueue (enterNested h b parts ps m) = eventQueue m"
  by (auto simp: enterNested_def perform_all_eq quiet_requests split_def Let_def split: option.splits)

lemma enterNested_effects:
  "\<exists>evs. effects (enterNested h b parts ps m) = effects m @ evs"
  by (auto simp: enterNested_def perform_all_eq split_def Let_def split: option.splits)

lemma run_transition_other_root:
  assumes cur: "currentState m = Some a" and sa: "map_of (states m) a = Some sa"
    and b: "map_of (states m) (hd (split_dot sp)) = Some sb" and ab: "hd (split_dot sp) \<noteq> a"
    and quiet: "\<forall>ev. h ev = []"
  shows "currentState (run_transition h sp ps m) = Some (hd (split_dot sp))"
    and "map_of (states (run_transition h sp ps m)) a = Some sa"
    and "\<exists>sb'. map_of (states (run_transition h sp ps m)) (hd (split_dot sp)) = Some sb'"
    and "eventQueue (run_transition h sp ps m) = eventQueue m"
    and "\<not> transitioning (run_transition h sp ps m)"
proof -
  let ?b = "hd (split_dot sp)"
  let ?m1 = "exitCurrentState h (m\<lparr>transitioning := True\<rparr>)"
  have m1: "?m1 = m\<lparr>transitioning := True, effects := effects m @ exit_events sa\<rparr>"
    using cur sa quiet by (simp add: exitCurrentState_eq quiet_requests)
  let ?m2 = "perform h (OnEnter [?b] ps) (?m1\<lparr>currentState := Some ?b\<rparr>)"
  have m2: "?m2 = m\<lparr>transitioning := True, currentState := Some ?b,
                     effects := effects m @ exit_events sa @ [OnEnter [?b] ps]\<rparr>"
    using quiet by (simp add: m1 perform_eq requests_def)
  let ?m3 = "(if length (split_dot sp) > 1 then enterNested h ?b (tl (split_dot sp)) ps ?m2 else ?m2)"
  have r: "run_transition h sp ps m
             = (perform h (LogTransitioned sp) (recordHistory sp ?m3))\<lparr>transitioning := False\<rparr>"
    using cur b ab by (simp add: run_transition_def transition_try_def Let_def m1)
  have ba: "a \<noteq> ?b" using ab by simp
  have e2: "map_of (states ?m2) a = Some sa" "map_of (states ?m2) ?b = Some sb"
    "currentState ?m2 = Some ?b" "eventQueue ?m2 = eventQueue m"
    using sa b by (simp_all add: m2)
  have s3: "map_of (states ?m3) a = Some sa" "currentState ?m3 = Some ?b"
    "eventQueue ?m3 = eventQueue m"
    using e2 by (simp_all add: enterNested_other_root [OF ba] enterNested_quiet [OF quiet])
  have s3b: "\<exists>sb'. map_of (states ?m3) ?b = Some sb'"
    using e2(2) enterNested_same_root [OF e2(2), of h "tl (split_dot sp)" ps] by simp
  show "currentState (run_transition h sp ps m) = Some ?b"
    using s3 by (simp add: r perform_eq recordHistory_def Let_def)
  show "map_of (states (run_transition h sp ps m)) a = Some sa"
    using s3 by (simp add: r perform_eq recordHistory_def Let_def)
  show "\<exists>sb'. map_of (states (run_transition h sp ps m)) ?b = Some sb'"
    using s3b by (simp add: r perform_eq recordHistory_def Let_def)
  show "eventQueue (run_transition h sp ps m) = eventQueue m"
    using s3 by (simp add: r perform_eq recordHistory_def Let_def requests_def)
  show "\<not> transitioning (run_transition h sp ps m)"
    by simp
qed

text \<open>
  Claim C10. \<open>exitCurrentState\<close> calls \<open>onExit\<close> on every state of the active chain
  and leaves every \<open>activeChild\<close> pointer as it is. So, with hooks that make no
  \<open>transition\<close> call, after a transition from root \<open>a\<close> to any path under another
  registered root and a later transition back to \<open>a\<close> by its bare name, the tree of
  \<open>a\<close> is what it was, \<open>getCurrentStatePath\<close> is the nested path that was active
  under \<open>a\<close> before, and on the way back the machine calls \<open>onExit\<close> along the chain
  it leaves and \<open>onEnter\<close> on \<open>a\<close> only.
\<close>

theorem stale_active_chain_after_return:
  assumes idle: "\<not> transitioning m" and q: "eventQueue m = []"
    and cur: "currentState m = Some a" and sa: "map_of (states m) a = Some sa"
    and sb: "map_of (states m) (hd (split_dot sp)) = Some sb"
    and ab: "hd (split_dot sp) \<noteq> a" and da: "split_dot a = [a]"
    and quiet: "\<forall>ev. h ev = []"
  shows "states (exitCurrentState h m) = states m
       \<and> effects (exitCurrentState h m) = effects m @ exit_events sa
       \<and> (\<forall>i < length (active_chain sa).
             OnExit (take (Suc i) (map name (active_chain sa))) \<in> set (exit_events sa))
       \<and> (\<exists>m1 m2 sb'. transition (Suc kb) h sp pb m = Some m1
             \<and> currentState m1 = Some (hd (split_dot sp))
             \<and> map_of (states m1) (hd (split_dot sp)) = Some sb'
             \<and> transition (Suc ka) h a pa m1 = Some m2
             \<and> currentState m2 = Some a
             \<and> map_of (states m2) a = Some sa
             \<and> getCurrentStatePath m2 = getCurrentStatePath m
             \<and> effects m2 = effects m1 @ exit_events sb' @ [OnEnter [a] pa, LogTransitioned a])"
proof (intro conjI)
  show "states (exitCurrentState h m) = states m"
    by (simp add: exitCurrentState_keeps_pointers)
  show "effects (exitCurrentState h m) = effects m @ exit_events sa"
    by (simp add: exitCurrentState_eq [OF cur sa])
  show "\<forall>i < length (active_chain sa).
          OnExit (take (Suc i) (map name (active_chain sa))) \<in> set (exit_events sa)"
    by (auto simp: exit_events_def Let_def)
  let ?b = "hd (split_dot sp)"
  let ?m1 = "run_transition h sp pb m"
  note o = run_transition_other_root [OF cur sa sb ab quiet, of pb]
  obtain sb' where sb': "map_of (states ?m1) ?b = Some sb'"
    using o(3) by blast
  have q1: "eventQueue ?m1 = []"
    using o(4) q by simp
  have t1: "transition (Suc kb) h sp pb m = Some ?m1"
    using q1 by (simp add: transition_idle [OF idle] processEventQueue_empty)
  let ?m2 = "run_transition h a pa ?m1"
  have r2: "?m2 = ?m1\<lparr>currentState := Some a,
                effects := effects ?m1 @ exit_events sb' @ [OnEnter [a] pa, LogTransitioned a],
                eventQueue := eventQueue ?m1
                   @ concat (map (requests h) (exit_events sb' @ [OnEnter [a] pa])),
                history := history (recordHistory a ?m1),
                transitioning := False\<rparr>"
    by (rule run_transition_bare_root [OF o(1) sb' da ab o(2)])
  have q2: "eventQueue ?m2 = []"
    using q1 by (simp only: r2 quiet_requests [OF quiet]) simp
  have t2: "transition (Suc ka) h a pa ?m1 = Some ?m2"
    using q2 by (simp add: transition_idle [OF o(5)] processEventQueue_empty)
  have c2: "currentState ?m2 = Some a" "map_of (states ?m2) a = Some sa"
    "effects ?m2 = effects ?m1 @ exit_events sb' @ [OnEnter [a] pa, LogTransitioned a]"
    using o(2) by (simp_all add: r2)
  have p2: "getCurrentStatePath ?m2 = getCurrentStatePath m"
    using c2(1,2) cur sa by (simp add: getCurrentStatePath_def)
  show "\<exists>m1 m2 sb'. transition (Suc kb) h sp pb m = Some m1
          \<and> currentState m1 = Some ?b
          \<and> map_of (states m1) ?b = Some sb'
          \<and> transition (Suc ka) h a pa m1 = Some m2
          \<and> currentState m2 = Some a
          \<and> map_of (states m2) a = Some sa
          \<and> getCurrentStatePath m2 = getCurrentStatePath m
          \<and> effects m2 = effects m1 @ exit_events sb' @ [OnEnter [a] pa, LogTransitioned a]"
    using t1 o(1) sb' t2 c2 p2 by blast
qed




theorem stale_active_chain_after_return_witness:
  "\<exists>m1 m2. transition (Suc 0) (\<lambda>ev. []) ''attract'' () example_playing = Some m1
      \<and> transition (Suc 0) (\<lambda>ev. []) ''game'' () m1 = Some m2
      \<and> getCurrentStatePath m2 = ''game.normalPlay.bonus''
      \<and> effects m2 = effects m1 @ [OnExit [''attract''], OnExit [''attract''],
                                    OnEnter [''game''] (), LogTransitioned ''game'']"
proof -
  have h1: "\<not> transitioning example_playing" by code_simp
  have h2: "eventQueue example_playing = []" by code_simp
  have cur: "currentState example_playing = Some ''game''" by code_simp
  obtain sa where sa: "map_of (states example_playing) ''game'' = Some sa"
    by (simp add: example_playing_eq)
  have sb: "map_of (states example_playing) (hd (split_dot ''attract''))
              = Some (State ''attract'' [] None)"
    by code_simp
  have ab: "hd (split_dot ''attract'') \<noteq> ''game''" by simp
  have da: "split_dot ''game'' = [''game'']" by simp
  have qt: "\<forall>ev :: unit effect. (\<lambda>ev. []) ev = ([] :: (string \<times> unit) list)" by simp
  have p: "getCurrentStatePath example_playing = ''game.normalPlay.bonus''" by code_simp
  from stale_active_chain_after_return
         [where h = "\<lambda>ev. []" and pa = "()" and pb = "()" and ka = 0 and kb = 0,
          OF h1 h2 cur sa sb ab da qt]
  obtain m1 m2 sb' where
    t: "transition (Suc 0) (\<lambda>ev. []) ''attract'' () example_playing = Some m1"
       "map_of (states m1) (hd (split_dot ''attract'')) = Some sb'"
       "transition (Suc 0) (\<lambda>ev. []) ''game'' () m1 = Some m2"
       "getCurrentStatePath m2 = getCurrentStatePath example_playing"
       "effects m2 = effects m1 @ exit_events sb' @ [OnEnter [''game''] (), LogTransitioned ''game'']"
    by blast
  have "transition (Suc 0) (\<lambda>ev. []) ''attract'' () example_playing
          = Some (the (transition (Suc 0) (\<lambda>ev. []) ''attract'' () example_playing))"
    using t(1) by simp
  have m1: "map_of (states (the (transition (Suc 0) (\<lambda>ev. []) ''attract'' () example_playing)))
              ''attract'' = Some (State ''attract'' [] None)"
    by code_simp
  have "sb' = State ''attract'' [] None"
    using t(1,2) m1 by simp
  moreover have "exit_events (State ''attract'' [] None)
                   = ([OnExit [''attract''], OnExit [''attract'']] :: unit effect list)"
    by code_simp
  ultimately show ?thesis
    using t p by auto
qed

theorem deferred_transitions_replayed_fifo_witness:
  "map_option history (transition 7 three_requests ''game'' () example_started)
     = Some [''attract'', ''game'', ''game.ballLaunch'', ''game.normalPlay'', ''attract'']"
proof -
  let ?r = "replay_fifo 3 three_requests (run_transition three_requests ''game'' () example_started)"
  have idle: "\<not> transitioning example_started" by code_simp
  have some: "?r = Some (the ?r)" by code_simp
  have hist: "history (the ?r)
                = [''attract'', ''game'', ''game.ballLaunch'', ''game.normalPlay'', ''attract'']"
    by code_simp
  have seven: "Suc (2 * 3) = 7" by simp
  from deferred_transitions_replayed_fifo [of example_started 0 three_requests "''game''" "()" 3 "the ?r"]
    idle some
  have "transition (Suc (2 * 3)) three_requests ''game'' () example_started = Some (the ?r)"
    by simp
  then show ?thesis
    by (simp add: hist seven)
qed

subsection \<open>Physics engine\<close>

lemma pi_bounds: "2 \<le> pi" "pi < 4" "0 < pi"
  using pi_ge_two pi_less_4 pi_gt_zero by auto

lemma right_flipper_eq:
  "right_flipper =
     \<lparr>fl_x = Fin 520, fl_y = Fin 1050, isLeft = False, fl_length = Fin 65, fl_width = Fin 12,
      restAngle = Fin (pi + 25 * pi / 180), maxAngle = Fin (pi - 20 * pi / 180),
      angle = Fin (pi + 25 * pi / 180), targetAngle = Fin (pi + 25 * pi / 180),
      angularVelocity = Fin 0, isPressed = False\<rparr>"
  by (simp add: right_flipper_def Flipper_new_def Let_def RIGHT_FLIPPER_x_def RIGHT_FLIPPER_y_def
      FLIPPER_LENGTH_def FLIPPER_WIDTH_def FLIPPER_REST_ANGLE_def FLIPPER_MAX_ANGLE_def
      Math_PI_def minus_jsnum_def)


lemma jsnum_NaN_right [simp]:
  "x + NaN = NaN" "x * NaN = NaN" "x / NaN = NaN" "x - NaN = NaN" "\<not> x < NaN" "\<not> x \<le> NaN"
  by (cases x; simp add: minus_jsnum_def)+

lemma jsnum_NaN_left [simp]:
  "NaN + x = NaN" "NaN * x = NaN" "NaN / x = NaN" "NaN - x = NaN" "\<not> NaN < x" "\<not> NaN \<le> x"
  by (cases x; simp add: minus_jsnum_def)+

lemma Math_minmax_NaN [simp]:
  "Math_min x NaN = NaN" "Math_min NaN x = NaN" "Math_max x NaN = NaN" "Math_max NaN x = NaN"
  by (simp_all add: Math_min_def Math_max_def)

lemma rect_fallback_drops_zero_component:
  "normal z = Some (Fin 1, Fin 0) \<Longrightarrow> fallback_nx z = Fin 1 \<and> fallback_ny z = Fin (- 1)"
  by (simp add: fallback_nx_def fallback_ny_def)

lemma checkFlipperCollision_NaN:
  "ball_x b = NaN \<Longrightarrow> checkFlipperCollision fo b = (b, [])"
  by (cases fo) (simp_all add: checkFlipperCollision_def Let_def)

lemma checkZoneCollision_NaN:
  "ball_x b = NaN \<Longrightarrow> checkZoneCollision b z = (b, False)"
  by (cases "zone_type z")
     (simp_all add: checkZoneCollision_def checkCircleCollision_def checkRectCollision_def
        checkLineCollision_def Let_def)

lemma checkZoneCollisions_NaN:
  "ball_x b = NaN \<Longrightarrow> checkZoneCollisions zs b = (b, [])"
  by (induction zs) (simp_all add: checkZoneCollision_NaN)

lemma checkBoundaryCollision_NaN:
  "ball_x b = NaN \<Longrightarrow> ball_y b = NaN \<Longrightarrow> checkBoundaryCollision b = b"
  by (simp add: checkBoundaryCollision_def Let_def)

lemma checkDrain_NaN: "ball_x b = NaN \<Longrightarrow> checkDrain b = (b, [])"
  by (simp add: checkDrain_def)

lemma Ball_update_NaN:
  "ball_x b = NaN \<Longrightarrow> ball_y b = NaN \<Longrightarrow>
   ball_x (Ball_update b) = NaN \<and> ball_y (Ball_update b) = NaN
   \<and> active (Ball_update b) = active b \<and> captured (Ball_update b) = captured b"
  by (simp add: Ball_update_def Let_def)

lemma update_ball_NaN:
  assumes "ball_x b = NaN" "ball_y b = NaN"
  shows "ball_x (fst (update_ball lf rf zs b)) = NaN \<and> ball_y (fst (update_ball lf rf zs b)) = NaN
       \<and> active (fst (update_ball lf rf zs b)) = active b"
proof (cases "\<not> active b \<or> captured b")
  case True
  then show ?thesis using assms by (auto simp: update_ball_def)
next
  case False
  have u: "ball_x (Ball_update b) = NaN" "ball_y (Ball_update b) = NaN"
    "active (Ball_update b) = active b"
    using Ball_update_NaN [OF assms] by simp_all
  show ?thesis
    using False u
    by (simp add: update_ball_def Let_def checkBoundaryCollision_NaN checkFlipperCollision_NaN
        checkZoneCollisions_NaN checkDrain_NaN)
qed

text \<open>
  Claim C1 (the code departs from it). \<open>checkCircleCollision\<close> has no fallback normal:
  for a ball of radius 12 whose centre is the centre of the circle zone \<open>bumper_left\<close>
  the distance is 0, the normal is \<open>0 / 0\<close>, and the ball leaves the resolver with
  \<open>NaN\<close> position and velocity. Nothing repairs it: whatever the flippers and the zone
  table, the per-ball step of the next tick returns the ball active and with \<open>NaN\<close>
  position again.
\<close>

theorem circle_zone_center_contact_gives_NaN:
  "checkCircleCollision (Ball_new (Fin 250) (Fin 280) 0) (bumper_left sw)
     = ((Ball_new (Fin 250) (Fin 280) 0)
          \<lparr>ball_x := NaN, ball_y := NaN, ball_vx := NaN, ball_vy := NaN\<rparr>, True)
   \<and> ball_x (fst (update_ball lf rf zs
                ((Ball_new (Fin 250) (Fin 280) 0)
                   \<lparr>ball_x := NaN, ball_y := NaN, ball_vx := NaN, ball_vy := NaN\<rparr>))) = NaN
   \<and> ball_y (fst (update_ball lf rf zs
                ((Ball_new (Fin 250) (Fin 280) 0)
                   \<lparr>ball_x := NaN, ball_y := NaN, ball_vx := NaN, ball_vy := NaN\<rparr>))) = NaN
   \<and> active (fst (update_ball lf rf zs
                ((Ball_new (Fin 250) (Fin 280) 0)
                   \<lparr>ball_x := NaN, ball_y := NaN, ball_vx := NaN, ball_vy := NaN\<rparr>)))"
proof -
  let ?b = "(Ball_new (Fin 250) (Fin 280) 0)
              \<lparr>ball_x := NaN, ball_y := NaN, ball_vx := NaN, ball_vy := NaN\<rparr>"
  have hit: "checkCircleCollision (Ball_new (Fin 250) (Fin 280) 0) (bumper_left sw) = (?b, True)"
    by (simp add: checkCircleCollision_def Ball_new_def bumper_left_def Let_def BALL_RADIUS_def
        minus_jsnum_def BOUNCE_DAMPING_def BUMPER_KICK_def)
  have pos: "ball_x ?b = NaN" "ball_y ?b = NaN"
    by simp_all
  have act: "active ?b"
    by (simp add: Ball_new_def)
  show ?thesis
    using hit update_ball_NaN [OF pos, of lf rf zs] act by simp
qed

theorem circle_zone_center_contact_gives_NaN_witness:
  "ball_x (fst (checkCircleCollision (Ball_new (Fin 250) (Fin 280) 0) (bumper_left 41))) = NaN
   \<and> ball_vx (fst (checkCircleCollision (Ball_new (Fin 250) (Fin 280) 0) (bumper_left 41))) = NaN
   \<and> ball_x (fst (update_ball None None [bumper_left 41]
                (fst (checkCircleCollision (Ball_new (Fin 250) (Fin 280) 0) (bumper_left 41)))))
       = NaN"
  using circle_zone_center_contact_gives_NaN [of 41 None None "[bumper_left 41]"]
  by simp

lemma right_pressed_eq:
  "right_pressed =
     \<lparr>fl_x = Fin 520, fl_y = Fin 1050, isLeft = False, fl_length = Fin 65, fl_width = Fin 12,
      restAngle = Fin (pi + 25 * pi / 180), maxAngle = Fin (pi - 20 * pi / 180),
      angle = Fin (pi - 20 * pi / 180), targetAngle = Fin (pi - 20 * pi / 180),
      angularVelocity = Fin (18 * pi / 180 * 0.6), isPressed = True\<rparr>"
  using pi_bounds
  by (simp add: right_pressed_def right_flipper_eq Flipper_press_def Flipper_update_def Let_def
      FLIPPER_ANGULAR_VEL_def Math_PI_def minus_jsnum_def)

lemma right_released_eq:
  "right_released =
     \<lparr>fl_x = Fin 520, fl_y = Fin 1050, isLeft = False, fl_length = Fin 65, fl_width = Fin 12,
      restAngle = Fin (pi + 25 * pi / 180), maxAngle = Fin (pi - 20 * pi / 180),
      angle = Fin (pi + 25 * pi / 180), targetAngle = Fin (pi + 25 * pi / 180),
      angularVelocity = Fin (- (18 * pi / 180)), isPressed = False\<rparr>"
  using pi_bounds
  by (simp add: right_released_def right_pressed_eq Flipper_release_def Flipper_update_def Let_def
      FLIPPER_ANGULAR_VEL_def Math_PI_def minus_jsnum_def)

text \<open>
  Claim C9 (the code departs from it). \<open>createBall\<close> takes the length of \<open>balls\<close> as
  the id: create two balls, remove the first, create a third, and the two balls in the
  world both have id 1.
\<close>

theorem createBall_reuses_id:
  "map ball_id
     (balls (createBall (Fin 770) (Fin 1100)
               (removeBall 0
                  (createBall (Fin 770) (Fin 1100)
                     (createBall (Fin 770) (Fin 1100) PhysicsEngine_new)))))
   = [1, 1]"
  by (simp add: createBall_def removeBall_def PhysicsEngine_new_def Ball_new_def)









text \<open>
  The left flipper, for comparison: pressed at rest, one tick moves it 18 degrees toward
  its maximum angle and \<open>isMovingUp\<close> holds.
\<close>

lemma left_flipper_sweeps_as_described:
  "Flipper_update (Flipper_press (Flipper_new LEFT_FLIPPER_x LEFT_FLIPPER_y True))
     = (Flipper_new LEFT_FLIPPER_x LEFT_FLIPPER_y True)
         \<lparr>isPressed := True, targetAngle := Fin (20 * pi / 180),
          angularVelocity := Fin (18 * pi / 180), angle := Fin (- (7 * pi / 180))\<rparr>
   \<and> isMovingUp (Flipper_update (Flipper_press (Flipper_new LEFT_FLIPPER_x LEFT_FLIPPER_y True)))"
  using pi_bounds
  by (simp add: Flipper_new_def Flipper_press_def Flipper_update_def isMovingUp_def Let_def
      LEFT_FLIPPER_x_def LEFT_FLIPPER_y_def FLIPPER_LENGTH_def FLIPPER_WIDTH_def
      FLIPPER_REST_ANGLE_def FLIPPER_MAX_ANGLE_def FLIPPER_ANGULAR_VEL_def Math_PI_def
      minus_jsnum_def)

text \<open>
  Claim C3 (the code departs from it). For the right flipper the maximum angle is below
  the rest angle, and \<open>update\<close> picks its branch by the sign of
  \<open>targetAngle - angle\<close>: after \<open>press()\<close> the tick that takes the flipper from rest to
  max leaves \<open>isMovingUp\<close> false, and after \<open>release()\<close> the tick that takes it back to
  rest leaves \<open>isMovingUp\<close> true.
\<close>

theorem right_flipper_isMovingUp_inverted:
  "isPressed right_pressed
   \<and> angle right_pressed = maxAngle right_flipper
   \<and> \<not> isMovingUp right_pressed
   \<and> \<not> isPressed right_released
   \<and> angle right_released = restAngle right_flipper
   \<and> isMovingUp right_released"
  using pi_bounds
  by (simp add: right_pressed_eq right_released_eq right_flipper_eq isMovingUp_def)

text \<open>
  Claim C4 (the code departs from it). The right flipper, pressed at rest, is at its
  maximum angle after one tick, 45 degrees away, with the angular velocity of the return
  sweep (60 percent of 18 degrees per tick) recorded; released, it is back at rest after
  one more tick, with the full strike velocity recorded.
\<close>

theorem right_flipper_press_jumps_to_max:
  "angle right_flipper = restAngle right_flipper
   \<and> maxAngle right_flipper - restAngle right_flipper = Fin (- (45 * pi / 180))
   \<and> angle right_pressed = maxAngle right_flipper
   \<and> angularVelocity right_pressed = FLIPPER_ANGULAR_VEL * Math_PI / Fin 180 * Fin 0.6
   \<and> angle right_released = restAngle right_flipper
   \<and> angularVelocity right_released = - (FLIPPER_ANGULAR_VEL * Math_PI / Fin 180)"
  by (simp add: right_pressed_eq right_released_eq right_flipper_eq FLIPPER_ANGULAR_VEL_def
      Math_PI_def minus_jsnum_def)




end
